theory Spec2Isabelle
  imports Main "HOL-Library.AList" "HOL-Library.Countable" "HOL-Library.Multiset"
    "HOL-Library.Code_Target_Nat"
begin

section \<open>SecretSage: vault store, source registry, env reconciler, credential service\<close>

text \<open>
  A shallow embedding of the TypeScript sources \<^verbatim>\<open>sources/local/index.ts\<close> (LocalSource),
  \<^verbatim>\<open>sources/registry.ts\<close> (CredentialSourceRegistry), \<^verbatim>\<open>core/service.ts\<close>
  (CredentialService), \<^verbatim>\<open>encryption/age.ts\<close> (the key files), \<^verbatim>\<open>config/paths.ts\<close> and
  \<^verbatim>\<open>config/loader.ts\<close>. The env parser is \<^verbatim>\<open>parse\<close> of the \<^verbatim>\<open>dotenv\<close> package,
  which these sources import; it is embedded from that package.

  A JavaScript string is modelled by the list of its code units, restricted to the code
  units below 256 (\<^typ>\<open>string\<close>). A rejected promise or a thrown exception is a value
  \<open>Inl e\<close> of a sum type, a fulfilled promise is \<open>Inr v\<close>. The file system is a map from
  paths to file contents, threaded through every operation that writes.
\<close>

subsection \<open>Strings\<close>

abbreviation dq :: char where "dq \<equiv> CHR 0x22"
abbreviation sq :: char where "sq \<equiv> CHR 0x27"
abbreviation bs :: char where "bs \<equiv> CHR 0x5C"
abbreviation nl :: char where "nl \<equiv> CHR 0x0A"
abbreviation cr :: char where "cr \<equiv> CHR 0x0D"
abbreviation bq :: char where "bq \<equiv> CHR 0x60"

text \<open>
  The characters that \<^verbatim>\<open>String.prototype.trim\<close> strips and that the regular expression
  class \<^verbatim>\<open>\s\<close> matches (WhiteSpace and LineTerminator of ECMAScript), among the code
  units below 256: TAB, LF, VT, FF, CR, SPACE and NO-BREAK SPACE.
\<close>

definition isWhiteSpace :: "char \<Rightarrow> bool" where
  "isWhiteSpace c \<longleftrightarrow>
     c = CHR 0x09 \<or> c = CHR 0x0A \<or> c = CHR 0x0B \<or> c = CHR 0x0C \<or> c = CHR 0x0D \<or>
     c = CHR 0x20 \<or> c = CHR 0xA0"

definition trim :: "string \<Rightarrow> string" where
  "trim s = rev (dropWhile isWhiteSpace (rev (dropWhile isWhiteSpace s)))"

text \<open>\<^verbatim>\<open>s.split('\n')\<close>: always at least one piece.\<close>

fun split_nl :: "string \<Rightarrow> string list" where
  "split_nl [] = [[]]"
| "split_nl (c # cs) =
     (if c = nl then [] # split_nl cs
      else (case split_nl cs of [] \<Rightarrow> [[c]] | l # ls \<Rightarrow> (c # l) # ls))"

definition startsWith :: "string \<Rightarrow> string \<Rightarrow> bool" where
  "startsWith s p \<longleftrightarrow> take (length p) s = p"

text \<open>\<^verbatim>\<open>lines.join(sep)\<close>.\<close>

fun join :: "string \<Rightarrow> string list \<Rightarrow> string" where
  "join sep [] = []"
| "join sep [l] = l"
| "join sep (l # m # ls) = l @ sep @ join sep (m # ls)"

subsection \<open>Errors\<close>

datatype error =
    ENOENT string              \<comment> \<open>\<^verbatim>\<open>fs.readFile\<close> of a path that does not exist\<close>
  | NoIdentity string          \<comment> \<open>\<^verbatim>\<open>No valid age identity found in ...\<close>\<close>
  | NoRecipient string         \<comment> \<open>\<^verbatim>\<open>No valid age recipient found in ...\<close>\<close>
  | EncryptFailed              \<comment> \<open>thrown by the age library while encrypting\<close>
  | DecryptFailed              \<comment> \<open>thrown by the age library while decrypting\<close>
  | SourceNotFound string      \<comment> \<open>\<^verbatim>\<open>Source '...' not found\<close>\<close>
  | SourceReadOnly string      \<comment> \<open>\<^verbatim>\<open>Source '...' is read-only\<close>\<close>
  | SourceNoDelete string      \<comment> \<open>\<^verbatim>\<open>Source '...' doesn't support deletion\<close>\<close>
  | NoWritableSource           \<comment> \<open>\<^verbatim>\<open>No writable credential source available\<close>\<close>
  | BackendError string        \<comment> \<open>anything a backend other than the local vault throws\<close>

type_synonym 'a result = "error + 'a"

subsection \<open>Plain objects with string values (\<^verbatim>\<open>Record<string, string>\<close>)\<close>

text \<open>
  The env mapping is a plain JavaScript object. It is modelled by the list of its own
  properties in creation order. \<^verbatim>\<open>obj[k] = v\<close> overwrites in place or appends; for the
  key \<^verbatim>\<open>__proto__\<close> the assignment of a string reaches the setter of
  \<^verbatim>\<open>Object.prototype\<close>, which ignores it, so no own property is created.
  \<^verbatim>\<open>k in obj\<close> is true for own properties and for the properties inherited from
  \<^verbatim>\<open>Object.prototype\<close>. \<^verbatim>\<open>Object.entries\<close> lists array-index keys first, in
  ascending numeric order, then the other keys in creation order.
\<close>

type_synonym jsobj = "(string \<times> string) list"

definition obj_set :: "jsobj \<Rightarrow> string \<Rightarrow> string \<Rightarrow> jsobj" where
  "obj_set obj k v = (if k = ''__proto__'' then obj else AList.update k v obj)"

definition obj_delete :: "jsobj \<Rightarrow> string \<Rightarrow> jsobj" where
  "obj_delete obj k = AList.delete k obj"

definition Object_prototype_keys :: "string list" where
  "Object_prototype_keys =
     [''constructor'', ''__defineGetter__'', ''__defineSetter__'', ''hasOwnProperty'',
      ''__lookupGetter__'', ''__lookupSetter__'', ''isPrototypeOf'', ''propertyIsEnumerable'',
      ''toString'', ''valueOf'', ''__proto__'', ''toLocaleString'']"

definition obj_in :: "string \<Rightarrow> jsobj \<Rightarrow> bool" where
  "obj_in k obj \<longleftrightarrow> k \<in> set (map fst obj) \<or> k \<in> set Object_prototype_keys"

definition isDigit :: "char \<Rightarrow> bool" where
  "isDigit c \<longleftrightarrow> (48::nat) \<le> of_char c \<and> of_char c \<le> (57::nat)"

definition digitsValue :: "string \<Rightarrow> nat" where
  "digitsValue s = foldl (\<lambda>n c. 10 * n + (of_char c - 48)) 0 s"

definition isArrayIndex :: "string \<Rightarrow> bool" where
  "isArrayIndex s \<longleftrightarrow>
     s \<noteq> [] \<and> list_all isDigit s \<and> (hd s \<noteq> CHR ''0'' \<or> s = ''0'') \<and>
     digitsValue s \<le> 4294967294"

definition Object_entries :: "jsobj \<Rightarrow> (string \<times> string) list" where
  "Object_entries obj =
     sort_key (\<lambda>p. digitsValue (fst p)) (filter (\<lambda>p. isArrayIndex (fst p)) obj) @
     filter (\<lambda>p. \<not> isArrayIndex (fst p)) obj"

subsection \<open>CredentialService.stringifyEnv\<close>

definition needsQuotes :: "string \<Rightarrow> bool" where
  "needsQuotes value \<longleftrightarrow>
     list_ex (\<lambda>c. isWhiteSpace c \<or> c = CHR ''#'' \<or> c = dq \<or> c = sq \<or> c = bs) value
     \<or> CHR ''='' \<in> set value"

text \<open>\<^verbatim>\<open>value.replace(/"/g, '\\"')\<close>: a backslash goes before every double quote.\<close>

fun escapeQuotes :: "string \<Rightarrow> string" where
  "escapeQuotes [] = []"
| "escapeQuotes (c # cs) = (if c = dq then bs # dq # escapeQuotes cs else c # escapeQuotes cs)"

definition quotedValue :: "string \<Rightarrow> string" where
  "quotedValue value = (if needsQuotes value then [dq] @ escapeQuotes value @ [dq] else value)"

definition envLine :: "string \<times> string \<Rightarrow> string" where
  "envLine p = fst p @ ''='' @ quotedValue (snd p)"

definition stringifyEnv :: "jsobj \<Rightarrow> string" where
  "stringifyEnv env = join [nl] (map envLine (Object_entries env)) @ [nl]"

subsection \<open>The platform: libraries and process constants the program is given\<close>

text \<open>
  A \<^verbatim>\<open>Date\<close> is the instant it denotes (milliseconds since the epoch); the ISO string
  that \<^verbatim>\<open>JSON.stringify\<close> writes for it and that \<^verbatim>\<open>JSON.parse\<close> reads back as a
  string denotes the same instant, and the model keeps the instant.
\<close>

type_synonym instant = nat

record CredentialScope =
  allowedPaths :: "string list option"
  allowedAgents :: "string list option"
  validUntil :: "instant option"

record CredentialMetadata =
  md_name :: string
  createdAt :: "instant option"
  updatedAt :: "instant option"
  description :: "string option"
  tags :: "string list option"
  scope :: "CredentialScope option"

text \<open>
  \<^verbatim>\<open>Partial<CredentialMetadata>\<close>: every property may be absent. A property that is
  present with the value \<^verbatim>\<open>undefined\<close> is not told apart from an absent one.
\<close>

record MetadataPatch =
  p_name :: "string option"
  p_createdAt :: "instant option"
  p_updatedAt :: "instant option"
  p_description :: "string option"
  p_tags :: "string list option"
  p_scope :: "CredentialScope option"

record Credential =
  cred_name :: string
  cred_value :: string
  cred_source :: string
  cred_metadata :: "CredentialMetadata option"

record VaultEntry =
  entry_name :: string
  encryptedValue :: string
  entry_metadata :: "CredentialMetadata option"

datatype location = Global | Local | Custom

record VaultConfig =
  defaultLocation :: location
  customPath :: "string option"

text \<open>
  The \<^verbatim>\<open>vault\<close> section of a config file, as \<^verbatim>\<open>yaml.parse\<close> returns it when it
  is an object; a section that is \<^verbatim>\<open>null\<close> or a scalar is outside the model.
\<close>

record PartialVaultConfig =
  pv_defaultLocation :: "location option"
  pv_customPath :: "string option"

text \<open>
  The libraries are parameters of the model. \<open>None\<close> is a thrown exception.
  \<^item> \<open>JSON_parse\<close>, \<open>JSON_stringify\<close>: the vault file codec; the cast
    \<^verbatim>\<open>JSON.parse(content) as VaultEntry[]\<close> is taken at its word, so a text is either
    rejected by the parser or read as a record list.
  \<^item> \<open>age_encrypt plaintext recipient\<close>, \<open>age_decrypt ciphertext privateKey\<close>: the
    \<^verbatim>\<open>AgeProvider\<close> methods, base64 included.
  \<^item> \<open>dotenv_parse\<close>: the assignments \<^verbatim>\<open>obj[key] = value\<close> that \<^verbatim>\<open>dotenv.parse\<close>
    performs, in order, on an object that starts empty.
  \<^item> \<open>yaml_parse\<close>: the \<^verbatim>\<open>vault\<close> section of the parsed config, if the file has one.
  \<^item> \<open>toISOString\<close>: \<^verbatim>\<open>Date.prototype.toISOString\<close>.
  \<^item> \<open>cwd\<close>, \<open>homedir\<close>: \<^verbatim>\<open>process.cwd()\<close> and \<^verbatim>\<open>os.homedir()\<close>.
\<close>

record platform =
  JSON_parse :: "string \<Rightarrow> VaultEntry list option"
  JSON_stringify :: "VaultEntry list \<Rightarrow> string"
  age_encrypt :: "string \<Rightarrow> string \<Rightarrow> string option"
  age_decrypt :: "string \<Rightarrow> string \<Rightarrow> string option"
  dotenv_parse :: "string \<Rightarrow> (string \<times> string) list"
  yaml_parse :: "string \<Rightarrow> PartialVaultConfig option option"
  toISOString :: "instant \<Rightarrow> string"
  cwd :: string
  homedir :: string

text \<open>The file system (paths to contents) and the clock that \<^verbatim>\<open>new Date()\<close> reads.\<close>

type_synonym fs = "string \<rightharpoonup> string"

record world =
  files :: fs
  clock :: instant

definition pathExists :: "fs \<Rightarrow> string \<Rightarrow> bool" where
  "pathExists f p \<longleftrightarrow> f p \<noteq> None"

definition readFile :: "fs \<Rightarrow> string \<Rightarrow> string result" where
  "readFile f p = (case f p of None \<Rightarrow> Inl (ENOENT p) | Some content \<Rightarrow> Inr content)"

definition writeFile :: "fs \<Rightarrow> string \<Rightarrow> string \<Rightarrow> fs" where
  "writeFile f p content = f(p \<mapsto> content)"

text \<open>
  \<^verbatim>\<open>path.join(dir, file)\<close> for a normalised directory other than the root and a plain
  file name.
\<close>

definition path_join :: "string \<Rightarrow> string \<Rightarrow> string" where
  "path_join dir file = dir @ ''/'' @ file"

subsection \<open>config/paths.ts\<close>

definition getGlobalDir :: "platform \<Rightarrow> string" where
  "getGlobalDir P = path_join (homedir P) ''.secretsage''"

definition getLocalDir :: "platform \<Rightarrow> string" where
  "getLocalDir P = path_join (cwd P) ''.secretsage''"

definition hasLocalVault :: "platform \<Rightarrow> fs \<Rightarrow> bool" where
  "hasLocalVault P f = pathExists f (path_join (getLocalDir P) ''identity.txt'')"

definition hasGlobalVault :: "platform \<Rightarrow> fs \<Rightarrow> bool" where
  "hasGlobalVault P f = pathExists f (path_join (getGlobalDir P) ''identity.txt'')"

definition getConfigPath :: "platform \<Rightarrow> bool \<Rightarrow> string" where
  "getConfigPath P local = path_join (if local then getLocalDir P else getGlobalDir P) ''config.yaml''"

definition getEnvPath :: "platform \<Rightarrow> string" where
  "getEnvPath P = path_join (cwd P) ''.env''"

text \<open>\<^verbatim>\<open>new Date().toISOString().replace(/[:.]/g, '-')\<close> after \<^verbatim>\<open>.env.backup.\<close>\<close>

definition getEnvBackupPath :: "platform \<Rightarrow> instant \<Rightarrow> string" where
  "getEnvBackupPath P now =
     path_join (cwd P)
       (''.env.backup.'' @ map (\<lambda>c. if c = CHR '':'' \<or> c = CHR ''.'' then CHR ''-'' else c) (toISOString P now))"

subsection \<open>config/loader.ts\<close>

definition getDefaultConfig :: VaultConfig where
  "getDefaultConfig = \<lparr>defaultLocation = Global, customPath = None\<rparr>"

text \<open>
  \<^verbatim>\<open>deepMerge\<close> on the \<^verbatim>\<open>vault\<close> section: a property of the source overrides the
  target's when it is present.
\<close>

definition deepMerge :: "VaultConfig \<Rightarrow> PartialVaultConfig option \<Rightarrow> VaultConfig" where
  "deepMerge target source =
     (case source of
        None \<Rightarrow> target
      | Some s \<Rightarrow>
          \<lparr>defaultLocation = (case pv_defaultLocation s of None \<Rightarrow> defaultLocation target | Some l \<Rightarrow> l),
           customPath = (case pv_customPath s of None \<Rightarrow> customPath target | Some p \<Rightarrow> Some p)\<rparr>)"

text \<open>One config file: absent, unreadable and unparsable files all give the empty config.\<close>

definition readConfigFile :: "platform \<Rightarrow> fs \<Rightarrow> string \<Rightarrow> PartialVaultConfig option" where
  "readConfigFile P f p =
     (if pathExists f p then
        (case readFile f p of
           Inl e \<Rightarrow> None
         | Inr content \<Rightarrow> (case yaml_parse P content of None \<Rightarrow> None | Some c \<Rightarrow> c))
      else None)"

definition loadConfig :: "platform \<Rightarrow> fs \<Rightarrow> VaultConfig" where
  "loadConfig P f =
     (let globalConfig = readConfigFile P f (getConfigPath P False);
          localConfig = readConfigFile P f (getConfigPath P True)
      in deepMerge (deepMerge getDefaultConfig globalConfig) localConfig)"

subsection \<open>encryption/age.ts: the key files\<close>

text \<open>The first line that, trimmed, starts with the marker; the trimmed line is the key.\<close>

definition keyLine :: "string \<Rightarrow> string \<Rightarrow> string option" where
  "keyLine marker content = find (\<lambda>trimmed. startsWith trimmed marker) (map trim (split_nl content))"

definition loadIdentity :: "fs \<Rightarrow> string \<Rightarrow> string result" where
  "loadIdentity f identityPath =
     (case readFile f identityPath of
        Inl e \<Rightarrow> Inl e
      | Inr content \<Rightarrow>
          (case keyLine ''AGE-SECRET-KEY-'' content of
             Some trimmed \<Rightarrow> Inr trimmed
           | None \<Rightarrow> Inl (NoIdentity identityPath)))"

definition loadRecipient :: "fs \<Rightarrow> string \<Rightarrow> string result" where
  "loadRecipient f recipientPath =
     (case readFile f recipientPath of
        Inl e \<Rightarrow> Inl e
      | Inr content \<Rightarrow>
          (case keyLine ''age1'' content of
             Some trimmed \<Rightarrow> Inr trimmed
           | None \<Rightarrow> Inl (NoRecipient recipientPath)))"

definition saveIdentity :: "platform \<Rightarrow> instant \<Rightarrow> fs \<Rightarrow> string \<Rightarrow> string \<Rightarrow> fs" where
  "saveIdentity P now f privateKey identityPath =
     writeFile f identityPath
       (''# created: '' @ toISOString P now @ [nl] @
        ''# SecretSage identity file'' @ [nl] @
        ''# public key: (run '' @ [sq] @ ''secretsage config --show'' @ [sq] @ '' to see)'' @ [nl] @
        privateKey @ [nl])"

definition saveRecipient :: "fs \<Rightarrow> string \<Rightarrow> string \<Rightarrow> fs" where
  "saveRecipient f publicKey recipientPath =
     writeFile f recipientPath
       (''# SecretSage recipient (public key)'' @ [nl] @
        ''# Share this key to allow others to encrypt credentials for you'' @ [nl] @
        publicKey @ [nl])"

definition encrypt :: "platform \<Rightarrow> string \<Rightarrow> string \<Rightarrow> string result" where
  "encrypt P plaintext recipient =
     (case age_encrypt P plaintext recipient of None \<Rightarrow> Inl EncryptFailed | Some c \<Rightarrow> Inr c)"

definition decrypt :: "platform \<Rightarrow> string \<Rightarrow> string \<Rightarrow> string result" where
  "decrypt P ciphertext privateKey =
     (case age_decrypt P ciphertext privateKey of None \<Rightarrow> Inl DecryptFailed | Some v \<Rightarrow> Inr v)"

subsection \<open>sources/local/index.ts: LocalSource\<close>

record LocalSource =
  vaultPath :: string
  identityPath :: string
  recipientPath :: string

text \<open>
  \<^verbatim>\<open>readVault\<close>: the whole body is inside \<^verbatim>\<open>try\<close>, and the \<^verbatim>\<open>catch\<close> returns
  the empty list, so it never throws.
\<close>

definition readVault :: "platform \<Rightarrow> LocalSource \<Rightarrow> fs \<Rightarrow> VaultEntry list" where
  "readVault P src f =
     (if \<not> pathExists f (vaultPath src) then []
      else
        (case readFile f (vaultPath src) of
           Inl e \<Rightarrow> []
         | Inr content \<Rightarrow>
             (if trim content = [] then []
              else (case JSON_parse P content of None \<Rightarrow> [] | Some entries \<Rightarrow> entries))))"

definition writeVault :: "platform \<Rightarrow> LocalSource \<Rightarrow> VaultEntry list \<Rightarrow> fs \<Rightarrow> fs" where
  "writeVault P src entries f = writeFile f (vaultPath src) (JSON_stringify P entries)"

definition LocalSource_isAvailable :: "LocalSource \<Rightarrow> fs \<Rightarrow> bool" where
  "LocalSource_isAvailable src f = pathExists f (identityPath src)"

text \<open>The key pair comes from \<^verbatim>\<open>age.generateIdentity\<close>; it is an argument here.\<close>

definition LocalSource_initialize ::
  "platform \<Rightarrow> LocalSource \<Rightarrow> string \<times> string \<Rightarrow> instant \<Rightarrow> fs \<Rightarrow> fs" where
  "LocalSource_initialize P src keyPair now f =
     (let publicKey = fst keyPair; privateKey = snd keyPair;
          f1 = saveIdentity P now f privateKey (identityPath src);
          f2 = saveRecipient f1 publicKey (recipientPath src)
      in writeVault P src [] f2)"

definition LocalSource_get ::
  "platform \<Rightarrow> LocalSource \<Rightarrow> string \<Rightarrow> fs \<Rightarrow> Credential option result" where
  "LocalSource_get P src name f =
     (let entries = readVault P src f in
      case find (\<lambda>e. entry_name e = name) entries of
        None \<Rightarrow> Inr None
      | Some entry \<Rightarrow>
          (case loadIdentity f (identityPath src) of
             Inl e \<Rightarrow> Inl e
           | Inr privateKey \<Rightarrow>
               (case decrypt P (encryptedValue entry) privateKey of
                  Inl e \<Rightarrow> Inl e
                | Inr value \<Rightarrow>
                    Inr (Some \<lparr>cred_name = entry_name entry, cred_value = value,
                               cred_source = ''local'', cred_metadata = entry_metadata entry\<rparr>))))"

text \<open>
  \<^verbatim>\<open>{ name: entry.name, ...entry.metadata }\<close>: the properties of the metadata, its
  \<^verbatim>\<open>name\<close> included, override; without metadata only the name is there.
\<close>

definition listItem :: "VaultEntry \<Rightarrow> CredentialMetadata" where
  "listItem entry =
     (case entry_metadata entry of
        None \<Rightarrow> \<lparr>md_name = entry_name entry, createdAt = None, updatedAt = None,
                  description = None, tags = None, scope = None\<rparr>
      | Some m \<Rightarrow> m)"

definition LocalSource_list :: "platform \<Rightarrow> LocalSource \<Rightarrow> fs \<Rightarrow> CredentialMetadata list result" where
  "LocalSource_list P src f = Inr (map listItem (readVault P src f))"

text \<open>\<^verbatim>\<open>entries.findIndex(p)\<close>: \<open>None\<close> is \<^verbatim>\<open>-1\<close>.\<close>

fun findIndex :: "('a \<Rightarrow> bool) \<Rightarrow> 'a list \<Rightarrow> nat option" where
  "findIndex p [] = None"
| "findIndex p (x # xs) = (if p x then Some 0 else map_option Suc (findIndex p xs))"

text \<open>
  \<^verbatim>\<open>{ name, createdAt: ..., updatedAt: now, ...metadata }\<close>: the properties present in
  the patch override the three computed ones and add the others.
\<close>

definition newMetadata ::
  "string \<Rightarrow> instant option \<Rightarrow> instant \<Rightarrow> MetadataPatch option \<Rightarrow> CredentialMetadata" where
  "newMetadata name created now patch =
     (case patch of
        None \<Rightarrow> \<lparr>md_name = name, createdAt = created, updatedAt = Some now,
                  description = None, tags = None, scope = None\<rparr>
      | Some p \<Rightarrow>
          \<lparr>md_name = (case p_name p of None \<Rightarrow> name | Some n \<Rightarrow> n),
           createdAt = (case p_createdAt p of None \<Rightarrow> created | Some c \<Rightarrow> Some c),
           updatedAt = (case p_updatedAt p of None \<Rightarrow> Some now | Some u \<Rightarrow> Some u),
           description = p_description p, tags = p_tags p, scope = p_scope p\<rparr>)"

text \<open>
  The middle of \<^verbatim>\<open>set\<close>, from \<^verbatim>\<open>findIndex\<close> to the replace-or-push: the record
  list that will be written.
\<close>

definition setEntries ::
  "string \<Rightarrow> string \<Rightarrow> MetadataPatch option \<Rightarrow> instant \<Rightarrow> VaultEntry list \<Rightarrow> VaultEntry list" where
  "setEntries name encrypted patch now entries =
     (let existingIndex = findIndex (\<lambda>e. entry_name e = name) entries;
          created = (case existingIndex of
                       Some i \<Rightarrow> (case entry_metadata (entries ! i) of
                                    None \<Rightarrow> None | Some m \<Rightarrow> createdAt m)
                     | None \<Rightarrow> Some now);
          newEntry = \<lparr>entry_name = name, encryptedValue = encrypted,
                      entry_metadata = Some (newMetadata name created now patch)\<rparr>
      in case existingIndex of
           Some i \<Rightarrow> entries[i := newEntry]
         | None \<Rightarrow> entries @ [newEntry])"

definition LocalSource_set ::
  "platform \<Rightarrow> LocalSource \<Rightarrow> string \<Rightarrow> string \<Rightarrow> MetadataPatch option \<Rightarrow> instant \<Rightarrow> fs \<Rightarrow> fs result" where
  "LocalSource_set P src name value patch now f =
     (let entries = readVault P src f in
      case loadRecipient f (recipientPath src) of
        Inl e \<Rightarrow> Inl e
      | Inr publicKey \<Rightarrow>
          (case encrypt P value publicKey of
             Inl e \<Rightarrow> Inl e
           | Inr encrypted \<Rightarrow>
               Inr (writeVault P src (setEntries name encrypted patch now entries) f)))"

definition LocalSource_delete ::
  "platform \<Rightarrow> LocalSource \<Rightarrow> string \<Rightarrow> fs \<Rightarrow> (bool \<times> fs) result" where
  "LocalSource_delete P src name f =
     (let entries = readVault P src f in
      case findIndex (\<lambda>e. entry_name e = name) entries of
        None \<Rightarrow> Inr (False, f)
      | Some index \<Rightarrow> Inr (True, writeVault P src (take index entries @ drop (Suc index) entries) f))"

text \<open>The \<^verbatim>\<open>for\<close> loop of \<^verbatim>\<open>getAll\<close>: an exception of \<^verbatim>\<open>decrypt\<close> leaves the loop.\<close>

fun getAll_loop ::
  "platform \<Rightarrow> string \<Rightarrow> VaultEntry list \<Rightarrow> Credential list \<Rightarrow> Credential list result" where
  "getAll_loop P privateKey [] credentials = Inr credentials"
| "getAll_loop P privateKey (entry # entries) credentials =
     (case decrypt P (encryptedValue entry) privateKey of
        Inl e \<Rightarrow> Inl e
      | Inr value \<Rightarrow>
          getAll_loop P privateKey entries
            (credentials @ [\<lparr>cred_name = entry_name entry, cred_value = value,
                             cred_source = ''local'', cred_metadata = entry_metadata entry\<rparr>]))"

definition LocalSource_getAll :: "platform \<Rightarrow> LocalSource \<Rightarrow> fs \<Rightarrow> Credential list result" where
  "LocalSource_getAll P src f =
     (let entries = readVault P src f in
      case loadIdentity f (identityPath src) of
        Inl e \<Rightarrow> Inl e
      | Inr privateKey \<Rightarrow> getAll_loop P privateKey entries [])"

subsection \<open>sources/types.ts and sources/registry.ts\<close>

text \<open>
  A backend (\<^verbatim>\<open>ICredentialSource\<close>) acts on a state of type \<open>'w\<close> that all backends of
  a registry share; \<open>src_set\<close> and \<open>src_delete\<close> are the optional methods. Reads do not
  change the state.
\<close>

record 'w source =
  src_id :: string
  src_name :: string
  src_priority :: int
  src_isAvailable :: "'w \<Rightarrow> bool"
  src_get :: "string \<Rightarrow> 'w \<Rightarrow> Credential option result"
  src_list :: "'w \<Rightarrow> CredentialMetadata list result"
  src_set :: "(string \<Rightarrow> string \<Rightarrow> 'w \<Rightarrow> 'w result) option"
  src_delete :: "(string \<Rightarrow> 'w \<Rightarrow> (bool \<times> 'w) result) option"

text \<open>The \<^verbatim>\<open>Map\<close> of sources, in insertion order.\<close>

type_synonym 'w registry = "(string \<times> 'w source) list"

definition register :: "'w registry \<Rightarrow> 'w source \<Rightarrow> 'w registry" where
  "register sources source = AList.update (src_id source) source sources"

definition unregister :: "'w registry \<Rightarrow> string \<Rightarrow> 'w registry" where
  "unregister sources sourceId = AList.delete sourceId sources"

definition getSource :: "'w registry \<Rightarrow> string \<Rightarrow> 'w source option" where
  "getSource sources sourceId = map_of sources sourceId"

text \<open>\<^verbatim>\<open>Array.prototype.sort\<close> is stable, and so is \<^const>\<open>sort_key\<close>.\<close>

definition getAvailableSources :: "'w registry \<Rightarrow> 'w \<Rightarrow> 'w source list" where
  "getAvailableSources sources w =
     sort_key src_priority (filter (\<lambda>source. src_isAvailable source w) (map snd sources))"

fun get_loop :: "'w source list \<Rightarrow> string \<Rightarrow> 'w \<Rightarrow> Credential option result" where
  "get_loop [] name w = Inr None"
| "get_loop (source # rest) name w =
     (case src_get source name w of
        Inl e \<Rightarrow> Inl e
      | Inr (Some credential) \<Rightarrow> Inr (Some credential)
      | Inr None \<Rightarrow> get_loop rest name w)"

definition Registry_get :: "'w registry \<Rightarrow> string \<Rightarrow> 'w \<Rightarrow> Credential option result" where
  "Registry_get sources name w = get_loop (getAvailableSources sources w) name w"

text \<open>The inner loop of \<^verbatim>\<open>list\<close>, on the pair of \<^verbatim>\<open>seen\<close> and \<^verbatim>\<open>result\<close>.\<close>

fun list_inner ::
  "CredentialMetadata list \<Rightarrow> string list \<times> CredentialMetadata list
     \<Rightarrow> string list \<times> CredentialMetadata list" where
  "list_inner [] acc = acc"
| "list_inner (cred # credentials) (seen, result) =
     (if md_name cred \<notin> set seen
      then list_inner credentials (seen @ [md_name cred], result @ [cred])
      else list_inner credentials (seen, result))"

fun list_loop ::
  "'w source list \<Rightarrow> 'w \<Rightarrow> string list \<times> CredentialMetadata list
     \<Rightarrow> CredentialMetadata list result" where
  "list_loop [] w acc = Inr (snd acc)"
| "list_loop (source # rest) w acc =
     (case src_list source w of
        Inl e \<Rightarrow> Inl e
      | Inr credentials \<Rightarrow> list_loop rest w (list_inner credentials acc))"

definition Registry_list :: "'w registry \<Rightarrow> 'w \<Rightarrow> CredentialMetadata list result" where
  "Registry_list sources w = list_loop (getAvailableSources sources w) w ([], [])"

text \<open>\<^verbatim>\<open>if (sourceId)\<close>: the empty string counts as no source id.\<close>

definition given :: "string option \<Rightarrow> string option" where
  "given sourceId = (if sourceId = Some [] then None else sourceId)"

fun set_loop :: "'w source list \<Rightarrow> string \<Rightarrow> string \<Rightarrow> 'w \<Rightarrow> 'w result" where
  "set_loop [] name value w = Inl NoWritableSource"
| "set_loop (source # rest) name value w =
     (case src_set source of
        Some set_method \<Rightarrow> set_method name value w
      | None \<Rightarrow> set_loop rest name value w)"

definition Registry_set ::
  "'w registry \<Rightarrow> string \<Rightarrow> string \<Rightarrow> string option \<Rightarrow> 'w \<Rightarrow> 'w result" where
  "Registry_set sources name value sourceId w =
     (case given sourceId of
        Some sid \<Rightarrow>
          (case map_of sources sid of
             None \<Rightarrow> Inl (SourceNotFound sid)
           | Some source \<Rightarrow>
               (case src_set source of
                  None \<Rightarrow> Inl (SourceReadOnly sid)
                | Some set_method \<Rightarrow> set_method name value w))
      | None \<Rightarrow> set_loop (getAvailableSources sources w) name value w)"

text \<open>
  The loop of \<^verbatim>\<open>delete\<close> on the pair of \<^verbatim>\<open>deleted\<close> and the state. In
  \<^verbatim>\<open>deleted = deleted || result\<close> the call has already been made.
\<close>

fun delete_loop :: "'w source list \<Rightarrow> string \<Rightarrow> bool \<Rightarrow> 'w \<Rightarrow> (bool \<times> 'w) result" where
  "delete_loop [] name deleted w = Inr (deleted, w)"
| "delete_loop (source # rest) name deleted w =
     (case src_delete source of
        Some delete_method \<Rightarrow>
          (case delete_method name w of
             Inl e \<Rightarrow> Inl e
           | Inr (result, w') \<Rightarrow> delete_loop rest name (deleted \<or> result) w')
      | None \<Rightarrow> delete_loop rest name deleted w)"

definition Registry_delete ::
  "'w registry \<Rightarrow> string \<Rightarrow> string option \<Rightarrow> 'w \<Rightarrow> (bool \<times> 'w) result" where
  "Registry_delete sources name sourceId w =
     (case given sourceId of
        Some sid \<Rightarrow>
          (case map_of sources sid of
             None \<Rightarrow> Inl (SourceNotFound sid)
           | Some source \<Rightarrow>
               (case src_delete source of
                  None \<Rightarrow> Inl (SourceNoDelete sid)
                | Some delete_method \<Rightarrow> delete_method name w))
      | None \<Rightarrow> delete_loop (getAvailableSources sources w) name False w)"

subsection \<open>core/service.ts: CredentialService\<close>

text \<open>
  The state shared by the backends of the service is the \<^typ>\<open>world\<close>. The local vault
  as a backend: \<^verbatim>\<open>id = 'local'\<close>, \<^verbatim>\<open>priority = 1\<close>; the registry calls
  \<^verbatim>\<open>source.set(name, value)\<close> without metadata.
\<close>

definition localBackend :: "platform \<Rightarrow> LocalSource \<Rightarrow> world source" where
  "localBackend P src =
     \<lparr>src_id = ''local'', src_name = ''Local Vault'', src_priority = 1,
      src_isAvailable = (\<lambda>w. LocalSource_isAvailable src (files w)),
      src_get = (\<lambda>name w. LocalSource_get P src name (files w)),
      src_list = (\<lambda>w. LocalSource_list P src (files w)),
      src_set = Some (\<lambda>name value w.
                  case LocalSource_set P src name value None (clock w) (files w) of
                    Inl e \<Rightarrow> Inl e
                  | Inr f' \<Rightarrow> Inr (w\<lparr>files := f'\<rparr>)),
      src_delete = Some (\<lambda>name w.
                  case LocalSource_delete P src name (files w) of
                    Inl e \<Rightarrow> Inl e
                  | Inr (removed, f') \<Rightarrow> Inr (removed, w\<lparr>files := f'\<rparr>))\<rparr>"

record service =
  registry :: "world registry"
  localSource :: "LocalSource option"
  initialized :: bool

definition newService :: service where
  "newService = \<lparr>registry = [], localSource = None, initialized = False\<rparr>"

text \<open>
  \<^verbatim>\<open>init(options)\<close>: \<open>local\<close> is \<^verbatim>\<open>options?.local\<close>, \<open>None\<close> when it is undefined.
\<close>

definition init :: "platform \<Rightarrow> bool option \<Rightarrow> service \<Rightarrow> world \<Rightarrow> service" where
  "init P local svc w =
     (if initialized svc then svc
      else
        (let config = loadConfig P (files w);
             useLocal = (case local of Some b \<Rightarrow> b | None \<Rightarrow> defaultLocation config = Local);
             dir = (if useLocal then getLocalDir P else getGlobalDir P);
             src = \<lparr>vaultPath = path_join dir ''vault.json'',
                    identityPath = path_join dir ''identity.txt'',
                    recipientPath = path_join dir ''recipient.txt''\<rparr>
         in \<lparr>registry = register (registry svc) (localBackend P src),
             localSource = Some src, initialized = True\<rparr>))"

definition ensureInitialized :: "platform \<Rightarrow> service \<Rightarrow> world \<Rightarrow> service" where
  "ensureInitialized P svc w = (if \<not> initialized svc then init P None svc w else svc)"

definition hasVault :: "platform \<Rightarrow> world \<Rightarrow> bool \<times> bool" where
  "hasVault P w = (hasLocalVault P (files w), hasGlobalVault P (files w))"

text \<open>\<^verbatim>\<open>getVaultPath\<close>: ``Priority: local vault > custom path > global vault''.\<close>

definition getVaultPath :: "platform \<Rightarrow> world \<Rightarrow> string" where
  "getVaultPath P w =
     (if hasLocalVault P (files w) then getLocalDir P
      else
        (let config = loadConfig P (files w) in
         case customPath config of
           Some p \<Rightarrow> (if defaultLocation config = Custom \<and> p \<noteq> [] then p else getGlobalDir P)
         | None \<Rightarrow> getGlobalDir P))"

definition Service_add :: "platform \<Rightarrow> service \<Rightarrow> string \<Rightarrow> string \<Rightarrow> world \<Rightarrow> (service \<times> world) result" where
  "Service_add P svc name value w =
     (let svc' = ensureInitialized P svc w in
      case Registry_set (registry svc') name value None w of
        Inl e \<Rightarrow> Inl e
      | Inr w' \<Rightarrow> Inr (svc', w'))"

definition Service_get :: "platform \<Rightarrow> service \<Rightarrow> string \<Rightarrow> world \<Rightarrow> (service \<times> Credential option) result" where
  "Service_get P svc name w =
     (let svc' = ensureInitialized P svc w in
      case Registry_get (registry svc') name w of
        Inl e \<Rightarrow> Inl e
      | Inr c \<Rightarrow> Inr (svc', c))"

definition Service_list :: "platform \<Rightarrow> service \<Rightarrow> world \<Rightarrow> (service \<times> CredentialMetadata list) result" where
  "Service_list P svc w =
     (let svc' = ensureInitialized P svc w in
      case Registry_list (registry svc') w of
        Inl e \<Rightarrow> Inl e
      | Inr l \<Rightarrow> Inr (svc', l))"

definition Service_delete ::
  "platform \<Rightarrow> service \<Rightarrow> string \<Rightarrow> world \<Rightarrow> (service \<times> bool \<times> world) result" where
  "Service_delete P svc name w =
     (let svc' = ensureInitialized P svc w in
      case Registry_delete (registry svc') name None w of
        Inl e \<Rightarrow> Inl e
      | Inr (removed, w') \<Rightarrow> Inr (svc', removed, w'))"

definition Service_getAll :: "platform \<Rightarrow> service \<Rightarrow> world \<Rightarrow> (service \<times> Credential list) result" where
  "Service_getAll P svc w =
     (let svc' = ensureInitialized P svc w in
      case localSource svc' of
        Some src \<Rightarrow>
          (case LocalSource_getAll P src (files w) of
             Inl e \<Rightarrow> Inl e
           | Inr credentials \<Rightarrow> Inr (svc', credentials))
      | None \<Rightarrow> Inr (svc', []))"

subsection \<open>core/service.ts: grant and revoke\<close>

text \<open>\<^verbatim>\<open>parseEnv(content)\<close>: the object that the parser's assignments build.\<close>

definition parseEnv :: "platform \<Rightarrow> string \<Rightarrow> jsobj" where
  "parseEnv P content = foldl (\<lambda>obj kv. obj_set obj (fst kv) (snd kv)) [] (dotenv_parse P content)"

fun grant_loop ::
  "world registry \<Rightarrow> world \<Rightarrow> string list \<Rightarrow> jsobj \<Rightarrow> string list \<Rightarrow> (jsobj \<times> string list) result" where
  "grant_loop reg w [] existingEnv granted = Inr (existingEnv, granted)"
| "grant_loop reg w (name # names) existingEnv granted =
     (case Registry_get reg name w of
        Inl e \<Rightarrow> Inl e
      | Inr None \<Rightarrow> grant_loop reg w names existingEnv granted
      | Inr (Some cred) \<Rightarrow>
          grant_loop reg w names (obj_set existingEnv name (cred_value cred)) (granted @ [name]))"

text \<open>
  \<^verbatim>\<open>grant(names, options)\<close>: \<open>backup\<close> is \<^verbatim>\<open>options?.backup\<close>. The result is the
  service, the world, \<^verbatim>\<open>granted\<close> and \<^verbatim>\<open>envPath\<close>. When an operation throws, the model
  gives the exception only, not the state left behind.
\<close>

definition grant ::
  "platform \<Rightarrow> service \<Rightarrow> string list \<Rightarrow> bool option \<Rightarrow> world
     \<Rightarrow> (service \<times> world \<times> string list \<times> string) result" where
  "grant P svc names backup w =
     (let svc' = ensureInitialized P svc w;
          envPath = getEnvPath P;
          start =
            (if pathExists (files w) envPath then
               (case readFile (files w) envPath of
                  Inl e \<Rightarrow> Inl e
                | Inr content \<Rightarrow>
                    Inr (parseEnv P content,
                         if backup \<noteq> Some False
                         then w\<lparr>files := writeFile (files w) (getEnvBackupPath P (clock w)) content\<rparr>
                         else w))
             else Inr ([], w))
      in case start of
           Inl e \<Rightarrow> Inl e
         | Inr (existingEnv, w1) \<Rightarrow>
             (case grant_loop (registry svc') w1 names existingEnv [] of
                Inl e \<Rightarrow> Inl e
              | Inr (env, granted) \<Rightarrow>
                  Inr (svc', w1\<lparr>files := writeFile (files w1) envPath (stringifyEnv env)\<rparr>,
                       granted, envPath)))"

fun revoke_loop :: "string list \<Rightarrow> jsobj \<Rightarrow> string list \<Rightarrow> jsobj \<times> string list" where
  "revoke_loop [] existingEnv revoked = (existingEnv, revoked)"
| "revoke_loop (name # names) existingEnv revoked =
     (if obj_in name existingEnv
      then revoke_loop names (obj_delete existingEnv name) (revoked @ [name])
      else revoke_loop names existingEnv revoked)"

definition revoke :: "platform \<Rightarrow> string list \<Rightarrow> world \<Rightarrow> (world \<times> string list \<times> string) result" where
  "revoke P names w =
     (let envPath = getEnvPath P in
      if \<not> pathExists (files w) envPath then Inr (w, [], envPath)
      else
        (case readFile (files w) envPath of
           Inl e \<Rightarrow> Inl e
         | Inr content \<Rightarrow>
             (case revoke_loop names (parseEnv P content) [] of
                (env, revoked) \<Rightarrow>
                  Inr (w\<lparr>files := writeFile (files w) envPath (stringifyEnv env)\<rparr>,
                       revoked, envPath))))"

subsection \<open>The env parser: \<^verbatim>\<open>parse\<close> of the \<^verbatim>\<open>dotenv\<close> package\<close>

text \<open>
  \<^verbatim>\<open>grant\<close> and \<^verbatim>\<open>revoke\<close> read the env document with \<^verbatim>\<open>parse\<close> of the
  \<^verbatim>\<open>dotenv\<close> package, which the sources import and do not contain. The functions of
  this subsection follow \<^verbatim>\<open>lib/main.js\<close> of dotenv 16. There \<^verbatim>\<open>parse\<close> replaces
  every \<^verbatim>\<open>\r\n\<close> and every other \<^verbatim>\<open>\r\<close> by \<^verbatim>\<open>\n\<close> and then applies the regular
  expression \<^verbatim>\<open>LINE\<close> (flags \<^verbatim>\<open>mg\<close>) again and again, each search starting where the
  match before it ended:

  \<^verbatim>\<open>(?:^|^)\s*(?:export\s+)?([\w.-]+)(?:\s*=\s*?|:\s+?)\<close>
  \<^verbatim>\<open>(\s*'(?:\\'|[^'])*'|\s*"(?:\\"|[^"])*"|\s*`(?:\\`|[^`])*`|[^#\r\n]+)?\s*(?:#.*)?(?:$|$)\<close>

  The key of a match is the first group. Its value is the second group, or the empty
  string; the value is trimmed, a surrounding pair of equal quotes is taken off
  (\<^verbatim>\<open>replace(/^(['"`])([\s\S]*)\1$/mg, '$2')\<close>), and, when the trimmed value began with
  a double quote, every \<^verbatim>\<open>\n\<close> and \<^verbatim>\<open>\r\<close> (a backslash and a letter) becomes a line
  feed and a carriage return. No step takes the backslash off a \<^verbatim>\<open>\"\<close>.
\<close>

text \<open>\<^verbatim>\<open>\w\<close>, \<^verbatim>\<open>[\w.-]\<close> and \<^verbatim>\<open>['"`]\<close>.\<close>

definition isWordChar :: "char \<Rightarrow> bool" where
  "isWordChar c \<longleftrightarrow>
     isDigit c \<or> ((65::nat) \<le> of_char c \<and> of_char c \<le> (90::nat)) \<or>
     ((97::nat) \<le> of_char c \<and> of_char c \<le> (122::nat)) \<or> c = CHR ''_''"

definition isKeyChar :: "char \<Rightarrow> bool" where
  "isKeyChar c \<longleftrightarrow> isWordChar c \<or> c = CHR ''.'' \<or> c = CHR ''-''"

definition isQuote :: "char \<Rightarrow> bool" where
  "isQuote c \<longleftrightarrow> c = sq \<or> c = dq \<or> c = bq"

text \<open>\<^verbatim>\<open>lines.replace(/\r\n?/mg, '\n')\<close>.\<close>

fun normalizeLineBreaks :: "string \<Rightarrow> string" where
  "normalizeLineBreaks (c # d # cs) =
     (if c = cr \<and> d = nl then nl # normalizeLineBreaks cs
      else if c = cr then nl # normalizeLineBreaks (d # cs)
      else c # normalizeLineBreaks (d # cs))"
| "normalizeLineBreaks [c] = (if c = cr then [nl] else [c])"
| "normalizeLineBreaks [] = []"

text \<open>
  \<^verbatim>\<open>\s*(?:#.*)?(?:$|$)\<close> matches at a position exactly when only whitespace lies
  between it and the end of its line, or between it and a \<^verbatim>\<open>#\<close> on its line.
\<close>

definition lineEnds :: "string \<Rightarrow> bool" where
  "lineEnds t \<longleftrightarrow>
     (case dropWhile (\<lambda>c. isWhiteSpace c \<and> c \<noteq> nl) t of
        [] \<Rightarrow> True
      | c # r \<Rightarrow> c = nl \<or> c = CHR ''#'')"

text \<open>
  A quoted value after its opening quote \<open>q\<close>: \<^verbatim>\<open>(?:\\q|[^q])*q\<close> followed by the end of
  the line. The star takes \<^verbatim>\<open>\q\<close> as one piece and goes on as far as it can, so the first
  candidate for the closing quote is the first quote without a backslash before it; when
  the line does not end after it, or there is none, the matcher backtracks, and the
  candidates are the quotes with a backslash before them, the last one first (the
  backslash then belongs to the value). The result is the text between the quotes and the
  text after the closing quote.
\<close>

fun quoted :: "char \<Rightarrow> string \<Rightarrow> (string \<times> string) option" where
  "quoted q [] = None"
| "quoted q [c] = (if c = q then Some ([], []) else None)"
| "quoted q (c # d # t) =
     (if c = q then (if lineEnds (d # t) then Some ([], d # t) else None)
      else if c = bs \<and> d = q then
        (case quoted q t of
           Some (body, rest) \<Rightarrow> Some (bs # q # body, rest)
         | None \<Rightarrow> if lineEnds t then Some ([bs], t) else None)
      else
        (case quoted q (d # t) of
           Some (body, rest) \<Rightarrow> Some (c # body, rest)
         | None \<Rightarrow> None))"

text \<open>
  The second group, at the text after the separator, and the text after it: a quoted value
  after any whitespace (line breaks included); otherwise the characters up to the next
  \<^verbatim>\<open>#\<close> or line break, which may be none.
\<close>

definition matchValue :: "string \<Rightarrow> string \<times> string" where
  "matchValue t =
     (let r = dropWhile isWhiteSpace t in
      case (case r of [] \<Rightarrow> None | q # r' \<Rightarrow> if isQuote q then quoted q r' else None) of
        Some (body, rest) \<Rightarrow> (takeWhile isWhiteSpace t @ [hd r] @ body @ [hd r], rest)
      | None \<Rightarrow>
          (takeWhile (\<lambda>c. c \<noteq> CHR ''#'' \<and> c \<noteq> cr \<and> c \<noteq> nl) t,
           dropWhile (\<lambda>c. c \<noteq> CHR ''#'' \<and> c \<noteq> cr \<and> c \<noteq> nl) t))"

text \<open>
  \<^verbatim>\<open>([\w.-]+)(?:\s*=\s*?|:\s+?)\<close> and the second group: the key, the value as matched
  and the text after it.
\<close>

definition matchAssignment :: "string \<Rightarrow> (string \<times> string \<times> string) option" where
  "matchAssignment t =
     (let key = takeWhile isKeyChar t;
          r = dropWhile isKeyChar t
      in if key = [] then None
         else
           (case dropWhile isWhiteSpace r of
              e # after \<Rightarrow>
                if e = CHR ''='' then Some (key, matchValue after)
                else
                  (case r of
                     c # s # after' \<Rightarrow>
                       if c = CHR '':'' \<and> isWhiteSpace s then Some (key, matchValue after')
                       else None
                   | _ \<Rightarrow> None)
            | [] \<Rightarrow> None))"

text \<open>\<^verbatim>\<open>(?:export\s+)?\<close> before the key; without it when the match fails with it.\<close>

definition matchLine :: "string \<Rightarrow> (string \<times> string \<times> string) option" where
  "matchLine t =
     (if take 6 t = ''export'' \<and> drop 6 t \<noteq> [] \<and> isWhiteSpace (hd (drop 6 t))
      then (case matchAssignment (dropWhile isWhiteSpace (drop 6 t)) of
              Some m \<Rightarrow> Some m
            | None \<Rightarrow> matchAssignment t)
      else matchAssignment t)"

text \<open>Where the next search finds its first character: after the whitespace and a comment.\<close>

definition afterMatch :: "string \<Rightarrow> string" where
  "afterMatch t =
     (case dropWhile isWhiteSpace t of
        [] \<Rightarrow> []
      | c # r \<Rightarrow> if c = CHR ''#'' then dropWhile (\<lambda>x. x \<noteq> nl) r else c # r)"

text \<open>
  \<^verbatim>\<open>value.replace(/^(['"`])([\s\S]*)\1$/mg, '$2')\<close> on a trimmed value that is one line
  or was matched as a quoted value.
\<close>

definition stripQuotes :: "string \<Rightarrow> string" where
  "stripQuotes v =
     (if 2 \<le> length v \<and> isQuote (hd v) \<and> last v = hd v then butlast (tl v) else v)"

text \<open>\<^verbatim>\<open>value.replace(/\\x/g, y)\<close> for a letter \<open>x\<close> and a character \<open>y\<close>.\<close>

fun replaceEscape :: "char \<Rightarrow> char \<Rightarrow> string \<Rightarrow> string" where
  "replaceEscape x y (a # b # r) =
     (if a = bs \<and> b = x then y # replaceEscape x y r else a # replaceEscape x y (b # r))"
| "replaceEscape x y r = r"

definition parsedValue :: "string \<Rightarrow> string" where
  "parsedValue raw =
     (let v = trim raw in
      if v \<noteq> [] \<and> hd v = dq
      then replaceEscape (CHR ''r'') cr (replaceEscape (CHR ''n'') nl (stripQuotes v))
      else stripQuotes v)"

text \<open>
  The \<^verbatim>\<open>while\<close> loop of \<^verbatim>\<open>parse\<close>. A match starts at the beginning of a line and
  \<^verbatim>\<open>\s*\<close> takes it to the first character that is not whitespace; when no match starts
  there, the search goes on at the next line.
\<close>

function matchLines :: "string \<Rightarrow> (string \<times> string) list" where
  "matchLines t =
     (case dropWhile isWhiteSpace t of
        [] \<Rightarrow> []
      | c # r \<Rightarrow>
          (case matchLine (c # r) of
             None \<Rightarrow> matchLines (drop 1 (dropWhile (\<lambda>x. x \<noteq> nl) r))
           | Some (key, raw, rest) \<Rightarrow> (key, parsedValue raw) # matchLines (afterMatch rest)))"
  by pat_completeness auto

termination
proof -
  have quoted_length: "length rest \<le> length t" if "quoted q t = Some (body, rest)"
    for q t body rest
    using that
    by (induction q t arbitrary: body rest rule: quoted.induct)
       (fastforce split: if_splits option.splits)+
  have value_length: "length rest \<le> length t" if "matchValue t = (v, rest)" for t v rest
    using that length_dropWhile_le [of isWhiteSpace t]
      length_dropWhile_le [of "\<lambda>c. c \<noteq> CHR ''#'' \<and> c \<noteq> cr \<and> c \<noteq> nl" t]
    by (auto simp: matchValue_def Let_def split: option.splits list.splits if_splits
        dest!: quoted_length)
  have assignment_length: "length rest < length t"
    if m: "matchAssignment t = Some (key, v, rest)" for t key v rest
  proof -
    from m have key: "takeWhile isKeyChar t \<noteq> []"
      by (auto simp: matchAssignment_def Let_def split: if_splits)
    have "length (takeWhile isKeyChar t) + length (dropWhile isKeyChar t) = length t"
      by (metis length_append takeWhile_dropWhile_id)
    with key have r: "length (dropWhile isKeyChar t) < length t"
      by (cases "takeWhile isKeyChar t") auto
    show ?thesis
    proof (cases "dropWhile isWhiteSpace (dropWhile isKeyChar t)")
      case Nil
      with m key show ?thesis by (simp add: matchAssignment_def Let_def)
    next
      case (Cons e after)
      have le: "length (e # after) \<le> length (dropWhile isKeyChar t)"
        using length_dropWhile_le [of isWhiteSpace "dropWhile isKeyChar t"] Cons by simp
      show ?thesis
      proof (cases "e = CHR ''=''")
        case True
        with m key Cons have "matchValue after = (v, rest)"
          by (simp add: matchAssignment_def Let_def)
        from value_length [OF this] le r show ?thesis by simp
      next
        case False
        with m key Cons obtain c s after' where
          "dropWhile isKeyChar t = c # s # after'" "matchValue after' = (v, rest)"
          by (auto simp: matchAssignment_def Let_def split: list.splits if_splits)
        with value_length [of after' v rest] r show ?thesis by simp
      qed
    qed
  qed
  have line_length: "length rest < length t"
    if m: "matchLine t = Some (key, v, rest)" for t key v rest
  proof (cases "matchAssignment t = Some (key, v, rest)")
    case True
    then show ?thesis by (rule assignment_length)
  next
    case False
    with m have "matchAssignment (dropWhile isWhiteSpace (drop 6 t)) = Some (key, v, rest)"
      by (auto simp: matchLine_def split: if_splits option.splits)
    from assignment_length [OF this] length_dropWhile_le [of isWhiteSpace "drop 6 t"]
    show ?thesis by simp
  qed
  have after_length: "length (afterMatch t) \<le> length t" for t
  proof (cases "dropWhile isWhiteSpace t")
    case Nil
    show ?thesis unfolding afterMatch_def Nil by simp
  next
    case (Cons c r)
    have "length (c # r) \<le> length t"
      using length_dropWhile_le [of isWhiteSpace t] Cons by simp
    moreover have "length (dropWhile (\<lambda>x. x \<noteq> nl) r) \<le> length r"
      by (rule length_dropWhile_le)
    ultimately show ?thesis unfolding afterMatch_def Cons by simp
  qed
  show ?thesis
  proof (relation "measure length", goal_cases)
    case 1
    show ?case by simp
  next
    case (2 t c r)
    have "length (c # r) \<le> length t"
      using length_dropWhile_le [of isWhiteSpace t] 2(1) by simp
    moreover have "length (dropWhile (\<lambda>x. x \<noteq> nl) r) \<le> length r"
      by (rule length_dropWhile_le)
    ultimately show ?case by simp
  next
    case (3 t c r m key p raw rest)
    then have "matchLine (c # r) = Some (key, raw, rest)" by simp
    from line_length [OF this] after_length [of rest]
      length_dropWhile_le [of isWhiteSpace t] 3(1)
    show ?case by simp
  qed
qed

text \<open>\<^verbatim>\<open>parse(src)\<close>: the assignments \<^verbatim>\<open>obj[key] = value\<close>, in order.\<close>

definition Dotenv_parse :: "string \<Rightarrow> (string \<times> string) list" where
  "Dotenv_parse src = matchLines (normalizeLineBreaks src)"

subsection \<open>A reference platform\<close>

text \<open>
  Small libraries on which the model runs on concrete inputs. The vault codec writes a
  record list as a bracketed run of dots whose length is a number that encodes the list,
  and rejects every other text; encryption prefixes the plaintext with the recipient. The
  env parser is \<^const>\<open>Dotenv_parse\<close>.
\<close>

definition encode_string :: "string \<Rightarrow> nat" where
  "encode_string s = list_encode (map of_char s)"

definition decode_string :: "nat \<Rightarrow> string" where
  "decode_string n = map char_of (list_decode n)"

fun encode_option :: "('a \<Rightarrow> nat) \<Rightarrow> 'a option \<Rightarrow> nat" where
  "encode_option f None = 0"
| "encode_option f (Some x) = Suc (f x)"

fun decode_option :: "(nat \<Rightarrow> 'a) \<Rightarrow> nat \<Rightarrow> 'a option" where
  "decode_option g 0 = None"
| "decode_option g (Suc n) = Some (g n)"

definition encode_strings :: "string list \<Rightarrow> nat" where
  "encode_strings ss = list_encode (map encode_string ss)"

definition decode_strings :: "nat \<Rightarrow> string list" where
  "decode_strings n = map decode_string (list_decode n)"

definition encode_scope :: "CredentialScope \<Rightarrow> nat" where
  "encode_scope sc =
     prod_encode (encode_option encode_strings (allowedPaths sc),
       prod_encode (encode_option encode_strings (allowedAgents sc),
         encode_option id (validUntil sc)))"

definition decode_scope :: "nat \<Rightarrow> CredentialScope" where
  "decode_scope n =
     (case prod_decode n of (a, r) \<Rightarrow>
      case prod_decode r of (b, c) \<Rightarrow>
        \<lparr>allowedPaths = decode_option decode_strings a,
         allowedAgents = decode_option decode_strings b,
         validUntil = decode_option id c\<rparr>)"

definition encode_metadata :: "CredentialMetadata \<Rightarrow> nat" where
  "encode_metadata m =
     prod_encode (encode_string (md_name m),
       prod_encode (encode_option id (createdAt m),
         prod_encode (encode_option id (updatedAt m),
           prod_encode (encode_option encode_string (description m),
             prod_encode (encode_option encode_strings (tags m),
               encode_option encode_scope (scope m))))))"

definition decode_metadata :: "nat \<Rightarrow> CredentialMetadata" where
  "decode_metadata n =
     (case prod_decode n of (a, r1) \<Rightarrow>
      case prod_decode r1 of (b, r2) \<Rightarrow>
      case prod_decode r2 of (c, r3) \<Rightarrow>
      case prod_decode r3 of (d, r4) \<Rightarrow>
      case prod_decode r4 of (e, f) \<Rightarrow>
        \<lparr>md_name = decode_string a, createdAt = decode_option id b,
         updatedAt = decode_option id c, description = decode_option decode_string d,
         tags = decode_option decode_strings e, scope = decode_option decode_scope f\<rparr>)"

definition encode_entry :: "VaultEntry \<Rightarrow> nat" where
  "encode_entry e =
     prod_encode (encode_string (entry_name e),
       prod_encode (encode_string (encryptedValue e),
         encode_option encode_metadata (entry_metadata e)))"

definition decode_entry :: "nat \<Rightarrow> VaultEntry" where
  "decode_entry n =
     (case prod_decode n of (a, r) \<Rightarrow>
      case prod_decode r of (b, c) \<Rightarrow>
        \<lparr>entry_name = decode_string a, encryptedValue = decode_string b,
         entry_metadata = decode_option decode_metadata c\<rparr>)"

definition ref_stringify :: "VaultEntry list \<Rightarrow> string" where
  "ref_stringify entries =
     ''['' @ replicate (list_encode (map encode_entry entries)) (CHR ''.'') @ '']''"

definition ref_parse :: "string \<Rightarrow> VaultEntry list option" where
  "ref_parse s =
     (let entries = map decode_entry (list_decode (length s - 2))
      in if s = ref_stringify entries then Some entries else None)"

definition ref_encrypt :: "string \<Rightarrow> string \<Rightarrow> string option" where
  "ref_encrypt plaintext recipient =
     (if startsWith recipient ''age1'' then Some (recipient @ '':'' @ plaintext) else None)"

definition ref_decrypt :: "string \<Rightarrow> string \<Rightarrow> string option" where
  "ref_decrypt ciphertext privateKey =
     (if privateKey = ''AGE-SECRET-KEY-REF'' \<and> startsWith ciphertext ''age1ref:''
      then Some (drop 8 ciphertext) else None)"

definition ref_yaml :: "string \<Rightarrow> PartialVaultConfig option option" where
  "ref_yaml content =
     (if content = ''vault: {defaultLocation: local}''
      then Some (Some \<lparr>pv_defaultLocation = Some Local, pv_customPath = None\<rparr>)
      else Some None)"

definition refPlatform :: platform where
  "refPlatform =
     \<lparr>JSON_parse = ref_parse, JSON_stringify = ref_stringify,
      age_encrypt = ref_encrypt, age_decrypt = ref_decrypt,
      dotenv_parse = Dotenv_parse, yaml_parse = ref_yaml,
      toISOString = (\<lambda>t. ''2025-01-01T00:00:00.000Z''),
      cwd = ''/work'', homedir = ''/home/user''\<rparr>"

definition refKeyPair :: "string \<times> string" where
  "refKeyPair = (''age1ref'', ''AGE-SECRET-KEY-REF'')"

definition refSource :: LocalSource where
  "refSource =
     \<lparr>vaultPath = ''/work/.secretsage/vault.json'',
      identityPath = ''/work/.secretsage/identity.txt'',
      recipientPath = ''/work/.secretsage/recipient.txt''\<rparr>"

text \<open>A vault directory of the reference platform holding the given records.\<close>

definition refFiles :: "VaultEntry list \<Rightarrow> fs" where
  "refFiles entries =
     [vaultPath refSource \<mapsto> ref_stringify entries,
      identityPath refSource \<mapsto>
        ''# SecretSage identity file'' @ [nl] @ ''AGE-SECRET-KEY-REF'' @ [nl],
      recipientPath refSource \<mapsto>
        ''# SecretSage recipient (public key)'' @ [nl] @ ''age1ref'' @ [nl]]"

text \<open>
  A project directory \<^verbatim>\<open>/work\<close> with that vault, a local config file that names the local
  vault as the default, and an env document.
\<close>

definition refWorld :: "VaultEntry list \<Rightarrow> string \<Rightarrow> world" where
  "refWorld entries envDoc =
     \<lparr>files = (refFiles entries)
        (''/work/.secretsage/config.yaml'' \<mapsto> ''vault: {defaultLocation: local}'',
         ''/work/.env'' \<mapsto> envDoc),
      clock = 1000\<rparr>"

text \<open>The service after \<^verbatim>\<open>init()\<close> in that directory.\<close>

definition refService :: service where
  "refService =
     \<lparr>registry = [(''local'', localBackend refPlatform refSource)],
      localSource = Some refSource, initialized = True\<rparr>"

text \<open>
  The shared vault in the home directory, and a world in which both the local and the
  shared vault exist and no config file does.
\<close>

definition globalSource :: LocalSource where
  "globalSource =
     \<lparr>vaultPath = ''/home/user/.secretsage/vault.json'',
      identityPath = ''/home/user/.secretsage/identity.txt'',
      recipientPath = ''/home/user/.secretsage/recipient.txt''\<rparr>"

definition bothVaults :: world where
  "bothVaults =
     \<lparr>files = (refFiles [])
        (vaultPath globalSource \<mapsto> ref_stringify [],
         identityPath globalSource \<mapsto> ''AGE-SECRET-KEY-REF'' @ [nl],
         recipientPath globalSource \<mapsto> ''age1ref'' @ [nl]),
      clock = 1000\<rparr>"

text \<open>
  Two backends that keep their credentials in memory, one store per backend id; the one
  registered second has the lower priority number.
\<close>

type_synonym stores = "string \<Rightarrow> jsobj"

definition memoryDelete :: "string \<Rightarrow> string \<Rightarrow> stores \<Rightarrow> (bool \<times> stores) result" where
  "memoryDelete sid name w = Inr (name \<in> fst ` set (w sid), w(sid := AList.delete name (w sid)))"

definition memoryBackend :: "string \<Rightarrow> int \<Rightarrow> stores source" where
  "memoryBackend sid prio =
     \<lparr>src_id = sid, src_name = sid, src_priority = prio,
      src_isAvailable = (\<lambda>w. True),
      src_get = (\<lambda>name w. Inr (map_option
                  (\<lambda>v. \<lparr>cred_name = name, cred_value = v, cred_source = sid, cred_metadata = None\<rparr>)
                  (map_of (w sid) name))),
      src_list = (\<lambda>w. Inr (map (\<lambda>kv. \<lparr>md_name = fst kv, createdAt = None, updatedAt = None,
                                       description = Some sid, tags = None, scope = None\<rparr>) (w sid))),
      src_set = Some (\<lambda>name value w. Inr (w(sid := AList.update name value (w sid)))),
      src_delete = Some (memoryDelete sid)\<rparr>"

definition twoBackends :: "stores registry" where
  "twoBackends = register (register [] (memoryBackend ''slow'' 5)) (memoryBackend ''fast'' 2)"

definition twoStores :: stores where
  "twoStores = (\<lambda>sid. [])(''slow'' := [(''K'', ''from-slow'')], ''fast'' := [(''K'', ''from-fast'')])"

subsection \<open>What the program expects of its libraries and of its vault\<close>

text \<open>
  The vault codec reads back what it wrote, and what it writes is not blank
  (\<^verbatim>\<open>JSON.stringify\<close> of an array starts with a bracket).
\<close>

definition codec_ok :: "platform \<Rightarrow> bool" where
  "codec_ok P \<longleftrightarrow>
     (\<forall>entries. JSON_parse P (JSON_stringify P entries) = Some entries \<and>
                trim (JSON_stringify P entries) \<noteq> [])"

text \<open>The key pair matches: every value encrypts, and decrypts to itself.\<close>

definition keys_match :: "platform \<Rightarrow> string \<Rightarrow> string \<Rightarrow> bool" where
  "keys_match P publicKey privateKey \<longleftrightarrow>
     (\<forall>v. \<exists>c. age_encrypt P v publicKey = Some c \<and> age_decrypt P c privateKey = Some v)"

text \<open>
  The record list of a vault that the store wrote itself: one record per name, and the
  name inside the metadata is the record's.
\<close>

definition wf_vault :: "VaultEntry list \<Rightarrow> bool" where
  "wf_vault entries \<longleftrightarrow>
     distinct (map entry_name entries) \<and>
     list_all (\<lambda>e. case entry_metadata e of None \<Rightarrow> True | Some m \<Rightarrow> md_name m = entry_name e)
       entries"

subsection \<open>Auxiliary notions\<close>

text \<open>
  The creation time that \<^verbatim>\<open>set\<close> computes for a name, and the record it writes when it
  is called without a metadata patch.
\<close>

definition createdOf :: "string \<Rightarrow> instant \<Rightarrow> VaultEntry list \<Rightarrow> instant option" where
  "createdOf name now es =
     (case find (\<lambda>e. entry_name e = name) es of
        None \<Rightarrow> Some now
      | Some e \<Rightarrow> (case entry_metadata e of None \<Rightarrow> None | Some m \<Rightarrow> createdAt m))"

definition written :: "string \<Rightarrow> string \<Rightarrow> instant option \<Rightarrow> instant \<Rightarrow> VaultEntry" where
  "written name enc created now =
     \<lparr>entry_name = name, encryptedValue = enc,
      entry_metadata = Some \<lparr>md_name = name, createdAt = created, updatedAt = Some now,
                              description = None, tags = None, scope = None\<rparr>\<rparr>"

text \<open>
  A run of delete methods on a name: each is called once, in order, on the state the one
  before left, and none throws; the results are collected.
\<close>

inductive delete_run ::
  "(string \<Rightarrow> 'w \<Rightarrow> (bool \<times> 'w) result) list \<Rightarrow> string \<Rightarrow> 'w \<Rightarrow> bool list \<Rightarrow> 'w \<Rightarrow> bool" where
  Nil: "delete_run [] name w [] w"
| Cons: "delete_method name w = Inr (result, w1) \<Longrightarrow> delete_run rest name w1 results w'
         \<Longrightarrow> delete_run (delete_method # rest) name w (result # results) w'"

code_pred delete_run .

text \<open>What a backend lists, the empty list when its \<^verbatim>\<open>list()\<close> throws.\<close>

definition listed :: "'w source \<Rightarrow> 'w \<Rightarrow> CredentialMetadata list" where
  "listed s w = (case src_list s w of Inl e \<Rightarrow> [] | Inr l \<Rightarrow> l)"

section \<open>Properties\<close>

subsection \<open>Reading the vault file\<close>

lemma trim_blank: "\<forall>c\<in>set s. isWhiteSpace c \<Longrightarrow> trim s = []"
  by (auto simp: trim_def dest: set_dropWhileD)

lemma readVault_blank:
  assumes "f (vaultPath src) = Some content" and "\<forall>c\<in>set content. isWhiteSpace c"
  shows "readVault P src f = []"
  using assms by (simp add: readVault_def pathExists_def readFile_def trim_blank)

lemma readVault_rejected:
  assumes "f (vaultPath src) = Some content" and "JSON_parse P content = None"
  shows "readVault P src f = []"
  using assms by (simp add: readVault_def pathExists_def readFile_def)

lemma decode_string_inverse [simp]: "decode_string (encode_string s) = s"
  by (simp add: decode_string_def encode_string_def comp_def)

lemma decode_option_inverse:
  "(\<And>x. g (f x) = x) \<Longrightarrow> decode_option g (encode_option f opt) = opt"
  by (cases opt) simp_all

lemma decode_strings_inverse [simp]: "decode_strings (encode_strings ss) = ss"
  by (simp add: decode_strings_def encode_strings_def comp_def)

lemma decode_scope_inverse [simp]: "decode_scope (encode_scope sc) = sc"
  by (simp add: decode_scope_def encode_scope_def decode_option_inverse)

lemma decode_metadata_inverse [simp]: "decode_metadata (encode_metadata m) = m"
  by (simp add: decode_metadata_def encode_metadata_def decode_option_inverse)

lemma decode_entry_inverse [simp]: "decode_entry (encode_entry e) = e"
  by (simp add: decode_entry_def encode_entry_def decode_option_inverse)

lemma ref_parse_stringify [simp]: "ref_parse (ref_stringify entries) = Some entries"
  by (simp add: ref_parse_def ref_stringify_def comp_def)

lemma ref_parse_not_bracket [simp]: "s \<noteq> [] \<Longrightarrow> hd s \<noteq> CHR ''['' \<Longrightarrow> ref_parse s = None"
  by (cases s) (auto simp: ref_parse_def ref_stringify_def Let_def)

lemma trim_eq_Nil: "trim s = [] \<longleftrightarrow> (\<forall>c\<in>set s. isWhiteSpace c)"
proof
  assume "trim s = []"
  then have all: "\<forall>x\<in>set (dropWhile isWhiteSpace s). isWhiteSpace x"
    by (simp add: trim_def)
  have "dropWhile isWhiteSpace s = []"
  proof (cases "dropWhile isWhiteSpace s")
    case Nil
    then show ?thesis .
  next
    case (Cons x xs)
    then have "\<not> isWhiteSpace x"
      by (metis hd_dropWhile list.sel(1) list.distinct(1))
    with all Cons show ?thesis by simp
  qed
  then show "\<forall>c\<in>set s. isWhiteSpace c" by simp
next
  assume "\<forall>c\<in>set s. isWhiteSpace c"
  then show "trim s = []" by (rule trim_blank)
qed

lemma codec_ok_ref: "codec_ok refPlatform"
  by (simp add: codec_ok_def refPlatform_def trim_eq_Nil)
    (simp add: ref_stringify_def isWhiteSpace_def)

lemma keys_match_ref: "keys_match refPlatform ''age1ref'' ''AGE-SECRET-KEY-REF''"
  by (simp add: keys_match_def refPlatform_def ref_encrypt_def ref_decrypt_def startsWith_def)

lemma readVault_stringify:
  assumes "codec_ok P" and "f (vaultPath src) = Some (JSON_stringify P entries)"
  shows "readVault P src f = entries"
  using assms by (simp add: readVault_def pathExists_def readFile_def codec_ok_def)

lemma readVault_writeVault:
  "codec_ok P \<Longrightarrow> readVault P src (writeVault P src entries f) = entries"
  by (rule readVault_stringify) (simp_all add: writeVault_def writeFile_def)

lemma loadIdentity_ref:
  "loadIdentity (refFiles es) (identityPath refSource) = Inr ''AGE-SECRET-KEY-REF''"
  by (simp add: refFiles_def loadIdentity_def readFile_def keyLine_def trim_def
      isWhiteSpace_def startsWith_def refSource_def)

lemma loadRecipient_ref:
  "loadRecipient (refFiles es) (recipientPath refSource) = Inr ''age1ref''"
  by (simp add: refFiles_def loadRecipient_def readFile_def keyLine_def trim_def
      isWhiteSpace_def startsWith_def refSource_def)

lemma readVault_ref: "readVault refPlatform refSource (refFiles es) = es"
  by (rule readVault_stringify [OF codec_ok_ref])
    (simp add: refFiles_def refSource_def refPlatform_def)

text \<open>
  C1 (as the code has it). When the vault file exists and the JSON parser rejects its
  content, \<^verbatim>\<open>readVault\<close> catches the exception: \<^verbatim>\<open>list()\<close> returns the empty list
  and \<^verbatim>\<open>get(name)\<close> returns \<^verbatim>\<open>null\<close> for every name. No error is raised; the code has
  no \<^verbatim>\<open>CorruptVault\<close> error.
\<close>

theorem rejected_vault_reads_as_empty:
  assumes "f (vaultPath src) = Some content" and "JSON_parse P content = None"
  shows "LocalSource_list P src f = Inr [] \<and> LocalSource_get P src name f = Inr None"
  using readVault_rejected [of f src content P] assms
  by (simp add: LocalSource_list_def LocalSource_get_def)

theorem rejected_vault_reads_as_empty_witness:
  "JSON_parse refPlatform ''garbage'' = None \<and>
   LocalSource_list refPlatform refSource [vaultPath refSource \<mapsto> ''garbage''] = Inr [] \<and>
   LocalSource_get refPlatform refSource ''OPENAI_API_KEY'' [vaultPath refSource \<mapsto> ''garbage'']
     = Inr None"
proof -
  have rejected: "JSON_parse refPlatform ''garbage'' = None"
    by (simp add: refPlatform_def)
  have present: "[vaultPath refSource \<mapsto> ''garbage''] (vaultPath refSource) = Some ''garbage''"
    by simp
  show ?thesis
    using rejected present
      rejected_vault_reads_as_empty [where f = "[vaultPath refSource \<mapsto> ''garbage'']"
        and src = refSource and content = "''garbage''" and P = refPlatform
        and name = "''OPENAI_API_KEY''"]
    by simp
qed

text \<open>
  C1 as the specification states it fails: with the text \<^verbatim>\<open>{not json\<close> in the vault
  file, \<^verbatim>\<open>list()\<close> returns the empty list and \<^verbatim>\<open>get\<close> returns \<^verbatim>\<open>null\<close>, where the
  claim asks for an error.
\<close>

theorem corrupt_vault_counterexample:
  "LocalSource_list refPlatform refSource [vaultPath refSource \<mapsto> ''{not json''] = Inr [] \<and>
   LocalSource_get refPlatform refSource ''OPENAI_API_KEY'' [vaultPath refSource \<mapsto> ''{not json'']
     = Inr None"
  by (simp add: LocalSource_list_def LocalSource_get_def readVault_def pathExists_def
      readFile_def trim_def isWhiteSpace_def refPlatform_def)

text \<open>
  C10. When the vault file exists and is empty or holds only whitespace, \<^verbatim>\<open>list()\<close>
  returns the empty list and \<^verbatim>\<open>get(name)\<close> returns \<^verbatim>\<open>null\<close> for every name; neither
  raises an error.
\<close>

theorem blank_vault_is_empty:
  assumes "f (vaultPath src) = Some content" and "\<forall>c\<in>set content. isWhiteSpace c"
  shows "LocalSource_list P src f = Inr [] \<and> LocalSource_get P src name f = Inr None"
  using readVault_blank [of f src content P] assms
  by (simp add: LocalSource_list_def LocalSource_get_def)

theorem blank_vault_is_empty_witness:
  "LocalSource_list refPlatform refSource [vaultPath refSource \<mapsto> [CHR 0x20, CHR 0x0A, CHR 0x09]]
     = Inr [] \<and>
   LocalSource_get refPlatform refSource ''OPENAI_API_KEY''
     [vaultPath refSource \<mapsto> [CHR 0x20, CHR 0x0A, CHR 0x09]] = Inr None"
proof -
  have blank: "\<forall>c\<in>set [CHR 0x20, CHR 0x0A, CHR 0x09]. isWhiteSpace c"
    by (simp add: isWhiteSpace_def)
  have present: "[vaultPath refSource \<mapsto> [CHR 0x20, CHR 0x0A, CHR 0x09]] (vaultPath refSource)
      = Some [CHR 0x20, CHR 0x0A, CHR 0x09]"
    by simp
  show ?thesis
    using blank_vault_is_empty [where f = "[vaultPath refSource \<mapsto> [CHR 0x20, CHR 0x0A, CHR 0x09]]"
        and src = refSource and content = "[CHR 0x20, CHR 0x0A, CHR 0x09]" and P = refPlatform
        and name = "''OPENAI_API_KEY''", OF present blank]
    by simp
qed

subsection \<open>getAll\<close>

lemma getAll_loop_eq:
  "getAll_loop P key es acc =
     (if \<exists>e\<in>set es. age_decrypt P (encryptedValue e) key = None then Inl DecryptFailed
      else Inr (acc @ map (\<lambda>e. \<lparr>cred_name = entry_name e,
                                  cred_value = the (age_decrypt P (encryptedValue e) key),
                                  cred_source = ''local'', cred_metadata = entry_metadata e\<rparr>) es))"
  by (induction es arbitrary: acc) (auto simp: decrypt_def split: option.splits)

text \<open>
  C3 (as the code has it). With the private key loaded, \<^verbatim>\<open>getAll()\<close> fails as a whole
  with the decryption error as soon as one record of the vault does not decrypt: it
  produces no credential and no list of failed names. It returns the decrypted
  credentials, in vault order, only when every record decrypts.
\<close>

theorem getAll_all_or_nothing:
  assumes "loadIdentity f (identityPath src) = Inr key"
  shows "LocalSource_getAll P src f =
     (if \<exists>e\<in>set (readVault P src f). age_decrypt P (encryptedValue e) key = None
      then Inl DecryptFailed
      else Inr (map (\<lambda>e. \<lparr>cred_name = entry_name e,
                           cred_value = the (age_decrypt P (encryptedValue e) key),
                           cred_source = ''local'', cred_metadata = entry_metadata e\<rparr>)
                  (readVault P src f)))"
  using assms by (simp add: LocalSource_getAll_def getAll_loop_eq Let_def)

theorem getAll_all_or_nothing_witness:
  "LocalSource_getAll refPlatform refSource
     (refFiles
        [\<lparr>entry_name = ''FIRST'', encryptedValue = ''damaged'', entry_metadata = None\<rparr>,
         \<lparr>entry_name = ''SECOND'', encryptedValue = ''age1ref:beta'', entry_metadata = None\<rparr>])
   = Inl DecryptFailed \<and>
   LocalSource_getAll refPlatform refSource
     (refFiles
        [\<lparr>entry_name = ''SECOND'', encryptedValue = ''age1ref:beta'', entry_metadata = None\<rparr>])
   = Inr [\<lparr>cred_name = ''SECOND'', cred_value = ''beta'', cred_source = ''local'',
           cred_metadata = None\<rparr>]"
  unfolding getAll_all_or_nothing [OF loadIdentity_ref] readVault_ref
  by (simp add: refPlatform_def ref_decrypt_def startsWith_def)

text \<open>
  C3 as the specification states it fails: the first record decrypts, the second does
  not, and \<^verbatim>\<open>getAll()\<close> is the exception, not the first credential and a report.
\<close>

theorem getAll_counterexample:
  "LocalSource_getAll refPlatform refSource
     (refFiles
        [\<lparr>entry_name = ''A'', encryptedValue = ''age1ref:alpha'', entry_metadata = None\<rparr>,
         \<lparr>entry_name = ''B'', encryptedValue = ''damaged'', entry_metadata = None\<rparr>])
   = Inl DecryptFailed"
  unfolding LocalSource_getAll_def readVault_ref loadIdentity_ref
  by (simp add: decrypt_def ref_decrypt_def refPlatform_def startsWith_def)

subsection \<open>set, list and get\<close>

lemma wf_vault_iff:
  "wf_vault es \<longleftrightarrow>
     distinct (map entry_name es) \<and>
     (\<forall>e\<in>set es. \<forall>m. entry_metadata e = Some m \<longrightarrow> md_name m = entry_name e)"
  by (auto simp: wf_vault_def list_all_iff split: option.splits)

lemma findIndex_None: "findIndex p xs = None \<longleftrightarrow> (\<forall>x\<in>set xs. \<not> p x)"
  by (induction xs) auto

lemma findIndex_Some:
  "findIndex p xs = Some i \<Longrightarrow> i < length xs \<and> p (xs ! i) \<and> find p xs = Some (xs ! i)"
  by (induction xs arbitrary: i) (auto split: if_splits)

lemma find_None_findIndex: "findIndex p xs = None \<Longrightarrow> find p xs = None"
  by (induction xs) (auto split: if_splits)

lemma find_distinct_names:
  assumes "distinct (map entry_name es)" and "e \<in> set es"
  shows "find (\<lambda>x. entry_name x = entry_name e) es = Some e"
  using assms by (induction es) (auto simp: rev_image_eqI)

lemma setEntries_cases:
  "setEntries name enc None now es =
     (case findIndex (\<lambda>e. entry_name e = name) es of
        Some i \<Rightarrow> es[i := written name enc (createdOf name now es) now]
      | None \<Rightarrow> es @ [written name enc (createdOf name now es) now])"
proof (cases "findIndex (\<lambda>e. entry_name e = name) es")
  case None
  then show ?thesis
    by (simp add: setEntries_def Let_def createdOf_def written_def newMetadata_def
        find_None_findIndex)
next
  case (Some i)
  then have "find (\<lambda>e. entry_name e = name) es = Some (es ! i)"
    by (simp add: findIndex_Some)
  with Some show ?thesis
    by (simp add: setEntries_def Let_def createdOf_def written_def newMetadata_def)
qed

lemma wf_setEntries:
  assumes "wf_vault es"
  shows "wf_vault (setEntries name enc None now es)"
proof (cases "findIndex (\<lambda>e. entry_name e = name) es")
  case None
  then have "name \<notin> entry_name ` set es" by (auto simp: findIndex_None)
  with assms None show ?thesis
    by (auto simp: setEntries_cases wf_vault_iff written_def)
next
  case (Some i)
  then have i: "i < length es" "entry_name (es ! i) = name" by (auto dest: findIndex_Some)
  then have "map entry_name (es[i := written name enc (createdOf name now es) now]) = map entry_name es"
    by (simp add: map_update written_def list_update_same_conv)
  with assms Some show ?thesis
    by (auto simp: setEntries_cases wf_vault_iff written_def dest!: subsetD[OF set_update_subset_insert])
qed

lemma written_in_setEntries:
  "written name enc (createdOf name now es) now \<in> set (setEntries name enc None now es)"
proof (cases "findIndex (\<lambda>e. entry_name e = name) es")
  case None
  then show ?thesis by (simp add: setEntries_cases)
next
  case (Some i)
  then have "i < length es" by (auto dest: findIndex_Some)
  with Some show ?thesis by (simp add: setEntries_cases set_update_memI)
qed

lemma find_setEntries:
  assumes "wf_vault es"
  shows "find (\<lambda>e. entry_name e = name) (setEntries name enc None now es)
           = Some (written name enc (createdOf name now es) now)"
proof -
  have "distinct (map entry_name (setEntries name enc None now es))"
    using wf_setEntries [OF assms] by (simp add: wf_vault_iff)
  from find_distinct_names [OF this written_in_setEntries]
  show ?thesis by (simp add: written_def)
qed


lemma md_name_listItem:
  "wf_vault es \<Longrightarrow> e \<in> set es \<Longrightarrow> md_name (listItem e) = entry_name e"
  by (auto simp: wf_vault_iff listItem_def split: option.splits)

lemma wf_vault_Cons: "wf_vault (e # es) \<Longrightarrow> wf_vault es"
  by (simp add: wf_vault_iff)

lemma find_listItem:
  "wf_vault es \<Longrightarrow>
   find (\<lambda>m. md_name m = name) (map listItem es)
     = map_option listItem (find (\<lambda>e. entry_name e = name) es)"
proof (induction es)
  case Nil
  then show ?case by simp
next
  case (Cons e es)
  have "md_name (listItem e) = entry_name e"
    using Cons.prems by (simp add: md_name_listItem)
  with Cons.IH [OF wf_vault_Cons [OF Cons.prems]] show ?case by simp
qed

lemma count_listItem:
  assumes "wf_vault es" and "find (\<lambda>e. entry_name e = name) es = Some e"
  shows "length (filter (\<lambda>m. md_name m = name) (map listItem es)) = 1"
proof -
  have "filter (\<lambda>m. md_name m = name) (map listItem es)
          = map listItem (filter (\<lambda>e. entry_name e = name) es)"
    using assms(1) by (induction es) (auto simp: md_name_listItem dest: wf_vault_Cons simp del: listItem_def)
  moreover have "length (filter (\<lambda>e. entry_name e = name) es) = 1"
  proof -
    have "name \<in> entry_name ` set es"
      using assms(2) by (auto simp: find_Some_iff intro: nth_mem)
    moreover have "distinct (map entry_name es)"
      using assms(1) by (simp add: wf_vault_iff)
    ultimately show ?thesis
      by (induction es) (auto simp: filter_empty_conv image_iff)
  qed
  ultimately show ?thesis by simp
qed

lemma loadRecipient_writeVault:
  "p \<noteq> vaultPath src \<Longrightarrow> loadRecipient (writeVault P src es f) p = loadRecipient f p"
  by (simp add: loadRecipient_def writeVault_def writeFile_def readFile_def)

lemma loadIdentity_writeVault:
  "p \<noteq> vaultPath src \<Longrightarrow> loadIdentity (writeVault P src es f) p = loadIdentity f p"
  by (simp add: loadIdentity_def writeVault_def writeFile_def readFile_def)

lemma set_writes:
  assumes "loadRecipient f (recipientPath src) = Inr publicKey"
    and "age_encrypt P v publicKey = Some c"
  shows "LocalSource_set P src name v patch now f
           = Inr (writeVault P src (setEntries name c patch now (readVault P src f)) f)"
  using assms by (simp add: LocalSource_set_def encrypt_def)

lemma get_finds:
  assumes "find (\<lambda>e. entry_name e = name) (readVault P src f) = Some e"
    and "loadIdentity f (identityPath src) = Inr privateKey"
    and "age_decrypt P (encryptedValue e) privateKey = Some v"
  shows "LocalSource_get P src name f
           = Inr (Some \<lparr>cred_name = entry_name e, cred_value = v, cred_source = ''local'',
                        cred_metadata = entry_metadata e\<rparr>)"
  using assms by (simp add: LocalSource_get_def decrypt_def)

text \<open>
  C2. In a vault that the store wrote, with the key files in place and a matching key
  pair, \<^verbatim>\<open>set(name, v1)\<close> at time \<open>t1\<close> and then \<^verbatim>\<open>set(name, v2)\<close> at time \<open>t2\<close>
  both succeed; afterwards \<^verbatim>\<open>list()\<close> has exactly one record named \<open>name\<close>, its
  \<^verbatim>\<open>createdAt\<close> is the one the record had after the first \<^verbatim>\<open>set\<close>, its \<^verbatim>\<open>updatedAt\<close>
  is \<open>t2\<close>, and \<^verbatim>\<open>get(name)\<close> returns the value \<open>v2\<close>.
\<close>

theorem set_twice:
  assumes codec: "codec_ok P"
    and keys: "keys_match P publicKey privateKey"
    and recipient: "loadRecipient f (recipientPath src) = Inr publicKey"
    and identity: "loadIdentity f (identityPath src) = Inr privateKey"
    and paths: "recipientPath src \<noteq> vaultPath src" "identityPath src \<noteq> vaultPath src"
    and wf: "wf_vault (readVault P src f)"
  shows "\<exists>f1 f2 l1 l2 m1 m2 c.
      LocalSource_set P src name v1 None t1 f = Inr f1 \<and>
      LocalSource_set P src name v2 None t2 f1 = Inr f2 \<and>
      LocalSource_list P src f1 = Inr l1 \<and>
      LocalSource_list P src f2 = Inr l2 \<and>
      length (filter (\<lambda>m. md_name m = name) l2) = 1 \<and>
      find (\<lambda>m. md_name m = name) l1 = Some m1 \<and>
      find (\<lambda>m. md_name m = name) l2 = Some m2 \<and>
      createdAt m2 = createdAt m1 \<and>
      updatedAt m2 = Some t2 \<and>
      LocalSource_get P src name f2 = Inr (Some c) \<and>
      cred_name c = name \<and> cred_value c = v2"
proof -
  define es0 where "es0 = readVault P src f"
  obtain c1 where c1: "age_encrypt P v1 publicKey = Some c1"
    using keys by (auto simp: keys_match_def)
  obtain c2 where c2: "age_encrypt P v2 publicKey = Some c2" "age_decrypt P c2 privateKey = Some v2"
    using keys by (auto simp: keys_match_def)
  define es1 where "es1 = setEntries name c1 None t1 es0"
  define f1 where "f1 = writeVault P src es1 f"
  define es2 where "es2 = setEntries name c2 None t2 es1"
  define f2 where "f2 = writeVault P src es2 f1"
  define e1 where "e1 = written name c1 (createdOf name t1 es0) t1"
  define e2 where "e2 = written name c2 (createdOf name t2 es1) t2"
  have set1: "LocalSource_set P src name v1 None t1 f = Inr f1"
    using set_writes [OF recipient c1] by (simp add: f1_def es1_def es0_def)
  have read1: "readVault P src f1 = es1"
    by (simp add: f1_def readVault_writeVault [OF codec])
  have recipient1: "loadRecipient f1 (recipientPath src) = Inr publicKey"
    by (simp add: f1_def loadRecipient_writeVault paths recipient)
  have set2: "LocalSource_set P src name v2 None t2 f1 = Inr f2"
    using set_writes [OF recipient1 c2(1)] by (simp add: f2_def es2_def read1)
  have read2: "readVault P src f2 = es2"
    by (simp add: f2_def readVault_writeVault [OF codec])
  have identity2: "loadIdentity f2 (identityPath src) = Inr privateKey"
    by (simp add: f2_def f1_def loadIdentity_writeVault paths identity)
  have wf0: "wf_vault es0" using wf by (simp add: es0_def)
  have wf1: "wf_vault es1" unfolding es1_def by (rule wf_setEntries [OF wf0])
  have wf2: "wf_vault es2" unfolding es2_def by (rule wf_setEntries [OF wf1])
  have find1: "find (\<lambda>e. entry_name e = name) es1 = Some e1"
    unfolding es1_def e1_def by (rule find_setEntries [OF wf0])
  have find2: "find (\<lambda>e. entry_name e = name) es2 = Some e2"
    unfolding es2_def e2_def by (rule find_setEntries [OF wf1])
  have created: "createdOf name t2 es1 = createdOf name t1 es0"
    by (simp add: createdOf_def [of name t2 es1] find1) (simp add: e1_def written_def)
  have list1: "LocalSource_list P src f1 = Inr (map listItem es1)"
    by (simp add: LocalSource_list_def read1)
  have list2: "LocalSource_list P src f2 = Inr (map listItem es2)"
    by (simp add: LocalSource_list_def read2)
  have once: "length (filter (\<lambda>m. md_name m = name) (map listItem es2)) = 1"
    by (rule count_listItem [OF wf2 find2])
  have item1: "find (\<lambda>m. md_name m = name) (map listItem es1) = Some (listItem e1)"
    by (simp add: find_listItem [OF wf1] find1)
  have item2: "find (\<lambda>m. md_name m = name) (map listItem es2) = Some (listItem e2)"
    by (simp add: find_listItem [OF wf2] find2)
  have same: "createdAt (listItem e2) = createdAt (listItem e1)"
    by (simp add: e1_def e2_def written_def listItem_def created)
  have updated: "updatedAt (listItem e2) = Some t2"
    by (simp add: e2_def written_def listItem_def)
  have "age_decrypt P (encryptedValue e2) privateKey = Some v2"
    using c2(2) by (simp add: e2_def written_def)
  from get_finds [of name P src f2 e2 privateKey v2] find2 read2 identity2 this
  have got: "LocalSource_get P src name f2
      = Inr (Some \<lparr>cred_name = entry_name e2, cred_value = v2, cred_source = ''local'',
                   cred_metadata = entry_metadata e2\<rparr>)"
    by simp
  have "entry_name e2 = name" by (simp add: e2_def written_def)
  with set1 set2 list1 list2 once item1 item2 same updated got show ?thesis
    by simp
qed

theorem set_twice_witness:
  "\<exists>f1 f2 l1 l2 m1 m2 c.
      LocalSource_set refPlatform refSource ''API_KEY'' ''one'' None 100
        (refFiles [written ''API_KEY'' ''age1ref:zero'' (Some 5) 7]) = Inr f1 \<and>
      LocalSource_set refPlatform refSource ''API_KEY'' ''two'' None 200 f1 = Inr f2 \<and>
      LocalSource_list refPlatform refSource f1 = Inr l1 \<and>
      LocalSource_list refPlatform refSource f2 = Inr l2 \<and>
      length (filter (\<lambda>m. md_name m = ''API_KEY'') l2) = 1 \<and>
      find (\<lambda>m. md_name m = ''API_KEY'') l1 = Some m1 \<and>
      find (\<lambda>m. md_name m = ''API_KEY'') l2 = Some m2 \<and>
      createdAt m2 = createdAt m1 \<and>
      updatedAt m2 = Some 200 \<and>
      LocalSource_get refPlatform refSource ''API_KEY'' f2 = Inr (Some c) \<and>
      cred_name c = ''API_KEY'' \<and> cred_value c = ''two''"
proof -
  have wf: "wf_vault (readVault refPlatform refSource
      (refFiles [written ''API_KEY'' ''age1ref:zero'' (Some 5) 7]))"
    by (simp add: readVault_ref wf_vault_iff written_def)
  have paths: "recipientPath refSource \<noteq> vaultPath refSource"
    "identityPath refSource \<noteq> vaultPath refSource"
    by (simp_all add: refSource_def)
  show ?thesis
    by (rule set_twice [OF codec_ok_ref keys_match_ref loadRecipient_ref loadIdentity_ref
          paths wf])
qed

subsection \<open>Writing a value of the env document and reading it back\<close>

text \<open>
  C4. The value \<^verbatim>\<open>a "b" c\<close> is written as \<^verbatim>\<open>"a \"b\" c"\<close>: inside double quotes,
  with a backslash before each of its double quotes. The parser with which grant and
  revoke read the document takes off the outer quotes and keeps the backslashes, so the
  written line reads back as \<^verbatim>\<open>a \"b\" c\<close>, which is not the original value. A value
  without a double quote, as \<^verbatim>\<open>a b c\<close>, is written inside double quotes and reads back
  as it was.
\<close>

theorem escaped_quote_not_read_back:
  "stringifyEnv [(''KEY'', ''a '' @ [dq] @ ''b'' @ [dq] @ '' c'')]
     = ''KEY='' @ [dq] @ ''a '' @ [bs, dq] @ ''b'' @ [bs, dq] @ '' c'' @ [dq, nl] \<and>
   parseEnv refPlatform (stringifyEnv [(''KEY'', ''a '' @ [dq] @ ''b'' @ [dq] @ '' c'')])
     = [(''KEY'', ''a '' @ [bs, dq] @ ''b'' @ [bs, dq] @ '' c'')] \<and>
   stringifyEnv [(''KEY'', ''a b c'')] = ''KEY='' @ [dq] @ ''a b c'' @ [dq, nl] \<and>
   parseEnv refPlatform (stringifyEnv [(''KEY'', ''a b c'')]) = [(''KEY'', ''a b c'')]"
  by code_simp

subsection \<open>The loops of grant and revoke\<close>





subsection \<open>The reference world\<close>

lemma refPlatform_fields [simp]:
  "JSON_parse refPlatform = ref_parse" "JSON_stringify refPlatform = ref_stringify"
  "age_encrypt refPlatform = ref_encrypt" "age_decrypt refPlatform = ref_decrypt"
  "dotenv_parse refPlatform = Dotenv_parse" "yaml_parse refPlatform = ref_yaml"
  "cwd refPlatform = ''/work''" "homedir refPlatform = ''/home/user''"
  by (simp_all add: refPlatform_def)

lemma ref_paths:
  "getLocalDir refPlatform = ''/work/.secretsage''"
  "getGlobalDir refPlatform = ''/home/user/.secretsage''"
  "getEnvPath refPlatform = ''/work/.env''"
  "getConfigPath refPlatform True = ''/work/.secretsage/config.yaml''"
  "getConfigPath refPlatform False = ''/home/user/.secretsage/config.yaml''"
  by (simp_all add: getLocalDir_def getGlobalDir_def getEnvPath_def getConfigPath_def path_join_def)

lemma loadConfig_refWorld:
  "loadConfig refPlatform (files (refWorld es doc)) = \<lparr>defaultLocation = Local, customPath = None\<rparr>"
  by (simp add: loadConfig_def readConfigFile_def ref_paths pathExists_def readFile_def
      refWorld_def refFiles_def refSource_def ref_yaml_def deepMerge_def getDefaultConfig_def)

lemma localBackend_fields [simp]:
  "src_id (localBackend P src) = ''local''"
  "src_priority (localBackend P src) = 1"
  "src_isAvailable (localBackend P src) w = LocalSource_isAvailable src (files w)"
  "src_get (localBackend P src) name w = LocalSource_get P src name (files w)"
  "src_list (localBackend P src) w = LocalSource_list P src (files w)"
  by (simp_all add: localBackend_def)

lemma init_refWorld:
  "ensureInitialized refPlatform newService (refWorld es doc)
     = \<lparr>registry = [(''local'', localBackend refPlatform refSource)],
        localSource = Some refSource, initialized = True\<rparr>"
  by (simp add: ensureInitialized_def init_def newService_def loadConfig_refWorld ref_paths
      path_join_def refSource_def register_def Let_def)

lemma files_refWorld:
  "files (refWorld es doc) (vaultPath refSource) = Some (ref_stringify es)"
  "loadIdentity (files (refWorld es doc)) (identityPath refSource) = Inr ''AGE-SECRET-KEY-REF''"
  "files (refWorld es doc) ''/work/.env'' = Some doc"
  by (simp_all add: refWorld_def refFiles_def refSource_def loadIdentity_def readFile_def keyLine_def trim_def
      isWhiteSpace_def startsWith_def)


lemma get_refWorld:
  "Registry_get [(''local'', localBackend refPlatform refSource)] ''BAZ''
     (refWorld [written ''BAZ'' ''age1ref:new'' (Some 5) 7] doc)
   = Inr (Some \<lparr>cred_name = ''BAZ'', cred_value = ''new'', cred_source = ''local'',
       cred_metadata = Some \<lparr>md_name = ''BAZ'', createdAt = Some 5, updatedAt = Some 7,
                              description = None, tags = None, scope = None\<rparr>\<rparr>)"
proof -
  have rv: "readVault refPlatform refSource (files (refWorld [written ''BAZ'' ''age1ref:new'' (Some 5) 7] doc))
     = [written ''BAZ'' ''age1ref:new'' (Some 5) 7]"
    by (rule readVault_stringify [OF codec_ok_ref]) (simp add: files_refWorld)
  have av: "LocalSource_isAvailable refSource (files (refWorld [written ''BAZ'' ''age1ref:new'' (Some 5) 7] doc))"
    by (simp add: LocalSource_isAvailable_def pathExists_def refWorld_def refFiles_def refSource_def)
  have lg: "LocalSource_get refPlatform refSource ''BAZ''
      (files (refWorld [written ''BAZ'' ''age1ref:new'' (Some 5) 7] doc))
    = Inr (Some \<lparr>cred_name = ''BAZ'', cred_value = ''new'', cred_source = ''local'',
       cred_metadata = Some \<lparr>md_name = ''BAZ'', createdAt = Some 5, updatedAt = Some 7,
                              description = None, tags = None, scope = None\<rparr>\<rparr>)"
    unfolding LocalSource_get_def rv files_refWorld
    by (simp add: written_def decrypt_def ref_decrypt_def startsWith_def)
  show ?thesis
    by (simp add: Registry_get_def getAvailableSources_def av lg)
qed

subsection \<open>grant and revoke\<close>




lemma parse_docs:
  "parseEnv refPlatform (''FOO=bar'' @ [nl] @ ''JSON={'' @ [dq] @ ''a'' @ [dq] @ '':1}'' @ [nl])
     = [(''FOO'', ''bar''), (''JSON'', ''{'' @ [dq] @ ''a'' @ [dq] @ '':1}'')]"
  "parseEnv refPlatform
     (''FOO=bar'' @ [nl] @ ''JSON='' @ [dq] @ ''{'' @ [bs, dq] @ ''a'' @ [bs, dq] @ '':1}'' @ [dq, nl]
        @ ''BAZ=new'' @ [nl])
     = [(''FOO'', ''bar''), (''JSON'', ''{'' @ [bs, dq] @ ''a'' @ [bs, dq] @ '':1}''),
        (''BAZ'', ''new'')]"
  "parseEnv refPlatform
     (''FOO=bar'' @ [nl] @ ''JSON='' @ [dq] @ ''{'' @ [bs, bs, dq] @ ''a'' @ [bs, bs, dq] @ '':1}''
        @ [dq, nl])
     = [(''FOO'', ''bar''), (''JSON'', ''{'' @ [bs, bs, dq] @ ''a'' @ [bs, bs, dq] @ '':1}'')]"
  by code_simp+

lemma stringify_docs:
  "stringifyEnv [(''FOO'', ''bar''), (''JSON'', ''{'' @ [dq] @ ''a'' @ [dq] @ '':1}''),
       (''BAZ'', ''new'')]
     = ''FOO=bar'' @ [nl] @ ''JSON='' @ [dq] @ ''{'' @ [bs, dq] @ ''a'' @ [bs, dq] @ '':1}'' @ [dq, nl]
        @ ''BAZ=new'' @ [nl]"
  "stringifyEnv [(''FOO'', ''bar''), (''JSON'', ''{'' @ [bs, dq] @ ''a'' @ [bs, dq] @ '':1}'')]
     = ''FOO=bar'' @ [nl] @ ''JSON='' @ [dq] @ ''{'' @ [bs, bs, dq] @ ''a'' @ [bs, bs, dq] @ '':1}''
        @ [dq, nl]"
  by code_simp+

lemma refWorld_rewrite:
  "(refWorld es doc)\<lparr>files := (files (refWorld es doc))(''/work/.env'' \<mapsto> doc')\<rparr> = refWorld es doc'"
  by (simp add: refWorld_def)

lemma grant_eval:
  "grant refPlatform newService [''BAZ''] (Some False)
     (refWorld [written ''BAZ'' ''age1ref:new'' (Some 5) 7]
        (''FOO=bar'' @ [nl] @ ''JSON={'' @ [dq] @ ''a'' @ [dq] @ '':1}'' @ [nl]))
   = Inr (refService,
       refWorld [written ''BAZ'' ''age1ref:new'' (Some 5) 7]
         (''FOO=bar'' @ [nl] @ ''JSON='' @ [dq] @ ''{'' @ [bs, dq] @ ''a'' @ [bs, dq] @ '':1}''
            @ [dq, nl] @ ''BAZ=new'' @ [nl]),
       [''BAZ''], ''/work/.env'')"
  unfolding grant_def init_refWorld ref_paths
  by (simp add: pathExists_def readFile_def files_refWorld parse_docs [simplified] get_refWorld
      obj_set_def writeFile_def stringify_docs [simplified] Let_def refWorld_rewrite [simplified]
      refService_def)

lemma revoke_eval:
  "revoke refPlatform [''BAZ'']
     (refWorld [written ''BAZ'' ''age1ref:new'' (Some 5) 7]
        (''FOO=bar'' @ [nl] @ ''JSON='' @ [dq] @ ''{'' @ [bs, dq] @ ''a'' @ [bs, dq] @ '':1}''
           @ [dq, nl] @ ''BAZ=new'' @ [nl]))
   = Inr (refWorld [written ''BAZ'' ''age1ref:new'' (Some 5) 7]
            (''FOO=bar'' @ [nl] @ ''JSON='' @ [dq] @ ''{'' @ [bs, bs, dq] @ ''a'' @ [bs, bs, dq]
               @ '':1}'' @ [dq, nl]),
          [''BAZ''], ''/work/.env'')"
  unfolding revoke_def ref_paths
  by (simp add: pathExists_def readFile_def files_refWorld parse_docs [simplified]
      obj_in_def obj_delete_def writeFile_def stringify_docs [simplified] Let_def
      refWorld_rewrite [simplified])

text \<open>
  C5. The env document holds \<^verbatim>\<open>FOO=bar\<close> and \<^verbatim>\<open>JSON={"a":1}\<close>, and the vault holds
  \<^verbatim>\<open>BAZ\<close>. Granting \<^verbatim>\<open>BAZ\<close> rewrites the line of the unrelated key \<^verbatim>\<open>JSON\<close> as
  \<^verbatim>\<open>JSON="{\"a\":1}"\<close>, which the parser reads as \<^verbatim>\<open>{\"a\":1}\<close>; revoking \<^verbatim>\<open>BAZ\<close>
  reads that value and rewrites the line as \<^verbatim>\<open>JSON="{\\"a\\":1}"\<close>, which the parser
  reads as \<^verbatim>\<open>{\\"a\\":1}\<close>. The keys after the revoke are the keys before the grant and
  \<^verbatim>\<open>FOO=bar\<close> is intact, and the value of \<^verbatim>\<open>JSON\<close> is no longer the value it had.
\<close>

theorem unrelated_value_rewritten:
  "parseEnv refPlatform (''FOO=bar'' @ [nl] @ ''JSON={'' @ [dq] @ ''a'' @ [dq] @ '':1}'' @ [nl])
     = [(''FOO'', ''bar''), (''JSON'', ''{'' @ [dq] @ ''a'' @ [dq] @ '':1}'')] \<and>
   grant refPlatform newService [''BAZ''] (Some False)
     (refWorld [written ''BAZ'' ''age1ref:new'' (Some 5) 7]
        (''FOO=bar'' @ [nl] @ ''JSON={'' @ [dq] @ ''a'' @ [dq] @ '':1}'' @ [nl]))
   = Inr (refService,
       refWorld [written ''BAZ'' ''age1ref:new'' (Some 5) 7]
         (''FOO=bar'' @ [nl] @ ''JSON='' @ [dq] @ ''{'' @ [bs, dq] @ ''a'' @ [bs, dq] @ '':1}''
            @ [dq, nl] @ ''BAZ=new'' @ [nl]),
       [''BAZ''], ''/work/.env'') \<and>
   parseEnv refPlatform
     (''FOO=bar'' @ [nl] @ ''JSON='' @ [dq] @ ''{'' @ [bs, dq] @ ''a'' @ [bs, dq] @ '':1}'' @ [dq, nl]
        @ ''BAZ=new'' @ [nl])
     = [(''FOO'', ''bar''), (''JSON'', ''{'' @ [bs, dq] @ ''a'' @ [bs, dq] @ '':1}''),
        (''BAZ'', ''new'')] \<and>
   revoke refPlatform [''BAZ'']
     (refWorld [written ''BAZ'' ''age1ref:new'' (Some 5) 7]
        (''FOO=bar'' @ [nl] @ ''JSON='' @ [dq] @ ''{'' @ [bs, dq] @ ''a'' @ [bs, dq] @ '':1}''
           @ [dq, nl] @ ''BAZ=new'' @ [nl]))
   = Inr (refWorld [written ''BAZ'' ''age1ref:new'' (Some 5) 7]
            (''FOO=bar'' @ [nl] @ ''JSON='' @ [dq] @ ''{'' @ [bs, bs, dq] @ ''a'' @ [bs, bs, dq]
               @ '':1}'' @ [dq, nl]),
          [''BAZ''], ''/work/.env'') \<and>
   parseEnv refPlatform
     (''FOO=bar'' @ [nl] @ ''JSON='' @ [dq] @ ''{'' @ [bs, bs, dq] @ ''a'' @ [bs, bs, dq] @ '':1}''
        @ [dq, nl])
     = [(''FOO'', ''bar''), (''JSON'', ''{'' @ [bs, bs, dq] @ ''a'' @ [bs, bs, dq] @ '':1}'')]"
  using grant_eval revoke_eval parse_docs by simp






subsection \<open>The registry\<close>

inductive_cases delete_run_NilE: "delete_run [] name w rs w'"
inductive_cases delete_run_ConsE: "delete_run (d # ds) name w rs w'"

lemma delete_loop_iff:
  "delete_loop ss name acc w = Inr (deleted, w') \<longleftrightarrow>
     (\<exists>rs. delete_run (List.map_filter src_delete ss) name w rs w' \<and>
           deleted = (acc \<or> True \<in> set rs))"
proof (induction ss arbitrary: acc w)
  case Nil
  then show ?case
    by (auto simp: List.map_filter_simps intro: delete_run.Nil elim: delete_run_NilE)
next
  case (Cons s ss)
  show ?case
  proof (cases "src_delete s")
    case None
    with Cons show ?thesis by (simp add: List.map_filter_simps)
  next
    case (Some d)
    show ?thesis
    proof (cases "d name w")
      case (Inl e)
      with Some show ?thesis
        by (auto simp: List.map_filter_simps elim: delete_run_ConsE)
    next
      case (Inr rw)
      obtain r w1 where rw: "rw = (r, w1)" by (cases rw)
      have "(\<exists>rs. delete_run (d # List.map_filter src_delete ss) name w rs w' \<and>
                deleted = (acc \<or> True \<in> set rs))
          \<longleftrightarrow> (\<exists>rs. delete_run (List.map_filter src_delete ss) name w1 rs w' \<and>
                deleted = ((acc \<or> r) \<or> True \<in> set rs))"
      proof
        assume "\<exists>rs. delete_run (d # List.map_filter src_delete ss) name w rs w' \<and>
                deleted = (acc \<or> True \<in> set rs)"
        then obtain rs where run: "delete_run (d # List.map_filter src_delete ss) name w rs w'"
          and del: "deleted = (acc \<or> True \<in> set rs)" by blast
        from run Inr rw obtain rs' where "rs = r # rs'"
          and "delete_run (List.map_filter src_delete ss) name w1 rs' w'"
          by (auto elim: delete_run_ConsE)
        with del show "\<exists>rs. delete_run (List.map_filter src_delete ss) name w1 rs w' \<and>
                deleted = ((acc \<or> r) \<or> True \<in> set rs)"
          by (intro exI [of _ rs']) auto
      next
        assume "\<exists>rs. delete_run (List.map_filter src_delete ss) name w1 rs w' \<and>
                deleted = ((acc \<or> r) \<or> True \<in> set rs)"
        then obtain rs where run: "delete_run (List.map_filter src_delete ss) name w1 rs w'"
          and del: "deleted = ((acc \<or> r) \<or> True \<in> set rs)" by blast
        from Inr rw run have "delete_run (d # List.map_filter src_delete ss) name w (r # rs) w'"
          by (auto intro: delete_run.Cons)
        with del show "\<exists>rs. delete_run (d # List.map_filter src_delete ss) name w rs w' \<and>
                deleted = (acc \<or> True \<in> set rs)"
          by (intro exI [of _ "r # rs"]) auto
      qed
      with Some Inr rw Cons.IH [of "acc \<or> r" w1] show ?thesis
        by (simp add: List.map_filter_simps)
    qed
  qed
qed

text \<open>
  C7. Without a source id, \<^verbatim>\<open>delete(name)\<close> returns exactly when the delete method of
  every available backend that has one has been run, in priority order, each on the state
  the one before left (it does not stop at the first backend that removed the name); the
  value returned is true exactly when one of them returned true.
\<close>

theorem delete_everywhere:
  "Registry_delete sources name None w = Inr (deleted, w') \<longleftrightarrow>
     (\<exists>results.
        delete_run (List.map_filter src_delete (getAvailableSources sources w)) name w results w' \<and>
        deleted = (True \<in> set results))"
  by (simp add: Registry_delete_def given_def delete_loop_iff)


lemma get_loop_None_iff:
  "get_loop ss name w = Inr None \<longleftrightarrow> (\<forall>s\<in>set ss. src_get s name w = Inr None)"
  by (induction ss) (auto split: sum.splits option.splits)

lemma get_loop_first:
  "(\<forall>t\<in>set pre. src_get t name w = Inr None) \<Longrightarrow> src_get s name w = Inr (Some c)
     \<Longrightarrow> get_loop (pre @ s # post) name w = Inr (Some c)"
  by (induction pre) auto

lemma sorted_available: "sorted (map src_priority (getAvailableSources reg w))"
  by (simp add: getAvailableSources_def)

lemma find_append_eq:
  "find P (xs @ ys) = (case find P xs of None \<Rightarrow> find P ys | Some x \<Rightarrow> Some x)"
  by (induction xs) auto

lemma find_append_cong:
  "find P xs = find P ys \<Longrightarrow> find P (xs @ zs) = find P (ys @ zs)"
  by (simp add: find_append_eq)

lemma find_in_names:
  "n \<in> set (map md_name xs) \<Longrightarrow> \<exists>m. find (\<lambda>m. md_name m = n) xs = Some m"
  by (induction xs) auto

lemma list_inner_props:
  "list_inner creds (map md_name result, result) = (seen', result') \<Longrightarrow>
     seen' = map md_name result' \<and>
     (distinct (map md_name result) \<longrightarrow> distinct seen') \<and>
     (\<forall>n. find (\<lambda>m. md_name m = n) result' = find (\<lambda>m. md_name m = n) (result @ creds))"
proof (induction creds arbitrary: result)
  case Nil
  then show ?case by auto
next
  case (Cons cred creds)
  show ?case
  proof (cases "md_name cred \<in> set (map md_name result)")
    case False
    with Cons.prems
    have "list_inner creds (map md_name (result @ [cred]), result @ [cred]) = (seen', result')"
      by simp
    from Cons.IH [OF this] False show ?thesis by auto
  next
    case True
    with Cons.prems have "list_inner creds (map md_name result, result) = (seen', result')"
      by simp
    from Cons.IH [OF this]
    have ih: "seen' = map md_name result'"
      "distinct (map md_name result) \<longrightarrow> distinct seen'"
      "\<forall>n. find (\<lambda>m. md_name m = n) result' = find (\<lambda>m. md_name m = n) (result @ creds)"
      by blast+
    have "find (\<lambda>m. md_name m = n) (result @ cred # creds)
            = find (\<lambda>m. md_name m = n) (result @ creds)" for n
    proof (cases "n = md_name cred")
      case True
      with \<open>md_name cred \<in> set (map md_name result)\<close>
      obtain m where "find (\<lambda>m. md_name m = n) result = Some m"
        using find_in_names by blast
      then show ?thesis by (simp add: find_append_eq)
    next
      case False
      then show ?thesis by (simp add: find_append_eq split: option.splits)
    qed
    with ih show ?thesis by simp
  qed
qed

lemma list_loop_props:
  assumes "\<forall>s\<in>set ss. \<exists>l. src_list s w = Inr l" and "distinct (map md_name result)"
  shows "\<exists>l. list_loop ss w (map md_name result, result) = Inr l \<and>
           distinct (map md_name l) \<and>
           (\<forall>n. find (\<lambda>m. md_name m = n) l
                 = find (\<lambda>m. md_name m = n) (result @ concat (map (\<lambda>s. listed s w) ss)))"
  using assms
proof (induction ss arbitrary: result)
  case Nil
  then show ?case by simp
next
  case (Cons s ss)
  from Cons.prems(1) obtain creds where creds: "src_list s w = Inr creds" by auto
  obtain seen' result' where inner: "list_inner creds (map md_name result, result) = (seen', result')"
    by (cases "list_inner creds (map md_name result, result)")
  from list_inner_props [OF inner] Cons.prems(2)
  have seen': "seen' = map md_name result'" and d: "distinct (map md_name result')"
    and f: "\<forall>n. find (\<lambda>m. md_name m = n) result' = find (\<lambda>m. md_name m = n) (result @ creds)"
    by auto
  from Cons.prems(1) have rest: "\<forall>s\<in>set ss. \<exists>l. src_list s w = Inr l" by simp
  from Cons.IH [OF rest d] obtain l where l:
    "list_loop ss w (map md_name result', result') = Inr l"
    "distinct (map md_name l)"
    "\<forall>n. find (\<lambda>m. md_name m = n) l
           = find (\<lambda>m. md_name m = n) (result' @ concat (map (\<lambda>s. listed s w) ss))"
    by blast
  have "find (\<lambda>m. md_name m = n) l
          = find (\<lambda>m. md_name m = n) (result @ concat (map (\<lambda>s. listed s w) (s # ss)))" for n
  proof -
    have "find (\<lambda>m. md_name m = n) (result' @ concat (map (\<lambda>s. listed s w) ss))
        = find (\<lambda>m. md_name m = n) ((result @ creds) @ concat (map (\<lambda>s. listed s w) ss))"
      by (rule find_append_cong) (simp add: f)
    with l(3) creds show ?thesis by (simp add: listed_def)
  qed
  with l(1,2) creds inner seen' show ?case by simp
qed


lemma count_distinct:
  "distinct (map md_name l) \<Longrightarrow> n \<in> md_name ` set l
     \<Longrightarrow> length (filter (\<lambda>m. md_name m = n) l) = 1"
  by (induction l) (auto simp: filter_empty_conv image_iff)

text \<open>
  C6. \<^verbatim>\<open>get(name)\<close> is \<^verbatim>\<open>null\<close> exactly when every available backend returns
  \<^verbatim>\<open>null\<close>. When two available backends \<open>a\<close> and \<open>b\<close> both have the name, \<open>a\<close> with the
  lower priority number, and no backend throws, \<^verbatim>\<open>get(name)\<close> returns the credential of
  the first backend in priority order that has the name; its priority number is at most
  that of \<open>a\<close>, so it is not \<open>b\<close>, and it is \<open>a\<close> when no other backend has the name.
  When no backend throws, \<^verbatim>\<open>list()\<close> holds each name that some backend lists exactly
  once, and the record it holds for a name is the first one in priority order.
\<close>

theorem registry_priority:
  "(Registry_get reg name w = Inr None \<longleftrightarrow>
      (\<forall>s\<in>set (getAvailableSources reg w). src_get s name w = Inr None)) \<and>
   (a \<in> set (getAvailableSources reg w) \<and> b \<in> set (getAvailableSources reg w) \<and>
    src_priority a < src_priority b \<and>
    src_get a name w = Inr (Some ca) \<and> src_get b name w = Inr (Some cb) \<and>
    (\<forall>s\<in>set (getAvailableSources reg w). \<exists>r. src_get s name w = Inr r) \<longrightarrow>
      (\<exists>pre s post c.
         getAvailableSources reg w = pre @ s # post \<and>
         (\<forall>t\<in>set pre. src_get t name w = Inr None) \<and>
         src_get s name w = Inr (Some c) \<and>
         Registry_get reg name w = Inr (Some c) \<and>
         src_priority s \<le> src_priority a \<and> b \<notin> set (pre @ [s])) \<and>
      ((\<forall>t\<in>set (getAvailableSources reg w). t \<noteq> a \<longrightarrow> t \<noteq> b \<longrightarrow> src_get t name w = Inr None)
         \<longrightarrow> Registry_get reg name w = Inr (Some ca))) \<and>
   ((\<forall>s\<in>set (getAvailableSources reg w). \<exists>l. src_list s w = Inr l) \<longrightarrow>
      (\<exists>l. Registry_list reg w = Inr l \<and>
           (\<forall>n. find (\<lambda>m. md_name m = n) l
                 = find (\<lambda>m. md_name m = n)
                     (concat (map (\<lambda>s. listed s w) (getAvailableSources reg w)))) \<and>
           (\<forall>n. (\<exists>s\<in>set (getAvailableSources reg w). n \<in> md_name ` set (listed s w))
                 \<longrightarrow> length (filter (\<lambda>m. md_name m = n) l) = 1)))"
proof (intro conjI impI)
  show "Registry_get reg name w = Inr None \<longleftrightarrow>
      (\<forall>s\<in>set (getAvailableSources reg w). src_get s name w = Inr None)"
    by (simp add: Registry_get_def get_loop_None_iff)
next
  let ?av = "getAvailableSources reg w"
  assume asm: "a \<in> set ?av \<and> b \<in> set ?av \<and> src_priority a < src_priority b \<and>
    src_get a name w = Inr (Some ca) \<and> src_get b name w = Inr (Some cb) \<and>
    (\<forall>s\<in>set ?av. \<exists>r. src_get s name w = Inr r)"
  then have a: "a \<in> set ?av" and b: "b \<in> set ?av" and lt: "src_priority a < src_priority b"
    and ga: "src_get a name w = Inr (Some ca)" and gb: "src_get b name w = Inr (Some cb)"
    and quiet: "\<forall>s\<in>set ?av. \<exists>r. src_get s name w = Inr r"
    by blast+
  from a ga have "\<exists>s\<in>set ?av. src_get s name w \<noteq> Inr None"
    by (intro bexI [of _ a]) simp_all
  from split_list_first_prop [OF this] obtain pre s post where
    split: "?av = pre @ s # post" and has: "src_get s name w \<noteq> Inr None"
    and none: "\<forall>t\<in>set pre. \<not> src_get t name w \<noteq> Inr None"
    by blast
  from split quiet obtain r where "src_get s name w = Inr r" by auto
  with has obtain c where c: "src_get s name w = Inr (Some c)" by (cases r) auto
  have pre_none: "\<forall>t\<in>set pre. src_get t name w = Inr None" using none by simp
  have got: "Registry_get reg name w = Inr (Some c)"
    unfolding Registry_get_def split by (rule get_loop_first [OF pre_none c])
  have sorted: "sorted (map src_priority (pre @ s # post))"
    using sorted_available [of reg w] by (simp add: split)
  have "a \<notin> set pre" using pre_none ga by auto
  with a split have "a = s \<or> a \<in> set post" by auto
  with sorted have le: "src_priority s \<le> src_priority a"
    by (auto simp: sorted_append)
  have "b \<notin> set pre" using pre_none gb by auto
  moreover have "s \<noteq> b" using le lt by auto
  ultimately have nb: "b \<notin> set (pre @ [s])" by simp
  show "\<exists>pre s post c.
         ?av = pre @ s # post \<and>
         (\<forall>t\<in>set pre. src_get t name w = Inr None) \<and>
         src_get s name w = Inr (Some c) \<and>
         Registry_get reg name w = Inr (Some c) \<and>
         src_priority s \<le> src_priority a \<and> b \<notin> set (pre @ [s])"
    using split pre_none c got le nb by blast
  show "Registry_get reg name w = Inr (Some ca)"
    if others: "\<forall>t\<in>set ?av. t \<noteq> a \<longrightarrow> t \<noteq> b \<longrightarrow> src_get t name w = Inr None"
  proof -
    have "s \<in> set ?av" by (simp add: split)
    with others c \<open>s \<noteq> b\<close> have "s = a" by auto
    with c ga got show ?thesis by simp
  qed
next
  let ?av = "getAvailableSources reg w"
  assume "\<forall>s\<in>set ?av. \<exists>l. src_list s w = Inr l"
  from list_loop_props [OF this, of "[]"] obtain l where l:
    "list_loop ?av w ([], []) = Inr l" "distinct (map md_name l)"
    "\<forall>n. find (\<lambda>m. md_name m = n) l
          = find (\<lambda>m. md_name m = n) (concat (map (\<lambda>s. listed s w) ?av))"
    by auto
  have once: "length (filter (\<lambda>m. md_name m = n) l) = 1"
    if "\<exists>s\<in>set ?av. n \<in> md_name ` set (listed s w)" for n
  proof -
    from that obtain s m where "s \<in> set ?av" "m \<in> set (listed s w)" "md_name m = n"
      by auto
    then have "m \<in> set (concat (map (\<lambda>s. listed s w) ?av))" by auto
    with \<open>md_name m = n\<close>
    have "\<exists>m\<in>set (concat (map (\<lambda>s. listed s w) ?av)). md_name m = n" by blast
    then have "find (\<lambda>m. md_name m = n) (concat (map (\<lambda>s. listed s w) ?av)) \<noteq> None"
      unfolding find_None_iff by blast
    with l(3) have "find (\<lambda>m. md_name m = n) l \<noteq> None" by simp
    then have "n \<in> md_name ` set l" by (auto simp: find_None_iff)
    with l(2) show ?thesis by (rule count_distinct)
  qed
  show "\<exists>l. Registry_list reg w = Inr l \<and>
           (\<forall>n. find (\<lambda>m. md_name m = n) l
                 = find (\<lambda>m. md_name m = n) (concat (map (\<lambda>s. listed s w) ?av))) \<and>
           (\<forall>n. (\<exists>s\<in>set ?av. n \<in> md_name ` set (listed s w))
                 \<longrightarrow> length (filter (\<lambda>m. md_name m = n) l) = 1)"
    using l(1,3) once by (intro exI [of _ l]) (simp add: Registry_list_def)
qed


lemma memoryBackend_fields [simp]:
  "src_id (memoryBackend sid prio) = sid"
  "src_priority (memoryBackend sid prio) = prio"
  "src_isAvailable (memoryBackend sid prio) w = True"
  "src_get (memoryBackend sid prio) name w = Inr (map_option
      (\<lambda>v. \<lparr>cred_name = name, cred_value = v, cred_source = sid, cred_metadata = None\<rparr>)
      (map_of (w sid) name))"
  "src_list (memoryBackend sid prio) w = Inr (map (\<lambda>kv. \<lparr>md_name = fst kv, createdAt = None,
      updatedAt = None, description = Some sid, tags = None, scope = None\<rparr>) (w sid))"
  "src_delete (memoryBackend sid prio) = Some (memoryDelete sid)"
  by (simp_all add: memoryBackend_def)

lemma available_twoBackends:
  "getAvailableSources twoBackends w = [memoryBackend ''fast'' 2, memoryBackend ''slow'' 5]"
  by (simp add: getAvailableSources_def twoBackends_def register_def)

theorem registry_priority_witness:
  "Registry_get twoBackends ''K'' twoStores
     = Inr (Some \<lparr>cred_name = ''K'', cred_value = ''from-fast'', cred_source = ''fast'',
                  cred_metadata = None\<rparr>) \<and>
   (\<exists>l. Registry_list twoBackends twoStores = Inr l \<and>
        length (filter (\<lambda>m. md_name m = ''K'') l) = 1 \<and>
        find (\<lambda>m. md_name m = ''K'') l
          = Some \<lparr>md_name = ''K'', createdAt = None, updatedAt = None,
                  description = Some ''fast'', tags = None, scope = None\<rparr>)"
proof -
  let ?a = "memoryBackend ''fast'' 2" and ?b = "memoryBackend ''slow'' 5"
  let ?ca = "\<lparr>cred_name = ''K'', cred_value = ''from-fast'', cred_source = ''fast'',
                  cred_metadata = None\<rparr>"
  let ?cb = "\<lparr>cred_name = ''K'', cred_value = ''from-slow'', cred_source = ''slow'',
                  cred_metadata = None\<rparr>"
  note inst = registry_priority [of twoBackends "''K''" twoStores ?a ?b ?ca ?cb]
  have pair: "?a \<in> set (getAvailableSources twoBackends twoStores) \<and>
      ?b \<in> set (getAvailableSources twoBackends twoStores) \<and>
      src_priority ?a < src_priority ?b \<and>
      src_get ?a ''K'' twoStores = Inr (Some ?ca) \<and> src_get ?b ''K'' twoStores = Inr (Some ?cb) \<and>
      (\<forall>s\<in>set (getAvailableSources twoBackends twoStores). \<exists>r. src_get s ''K'' twoStores = Inr r)"
    by (simp add: available_twoBackends twoStores_def)
  have others: "\<forall>t\<in>set (getAvailableSources twoBackends twoStores).
      t \<noteq> ?a \<longrightarrow> t \<noteq> ?b \<longrightarrow> src_get t ''K'' twoStores = Inr None"
    by (simp add: available_twoBackends)
  have got: "Registry_get twoBackends ''K'' twoStores = Inr (Some ?ca)"
    using inst [THEN conjunct2, THEN conjunct1, THEN mp, OF pair, THEN conjunct2, THEN mp,
        OF others] .
  have lists: "\<forall>s\<in>set (getAvailableSources twoBackends twoStores). \<exists>l. src_list s twoStores = Inr l"
    by (simp add: available_twoBackends)
  from inst [THEN conjunct2, THEN conjunct2, THEN mp, OF lists] obtain l where l:
    "Registry_list twoBackends twoStores = Inr l"
    "\<forall>n. find (\<lambda>m. md_name m = n) l
          = find (\<lambda>m. md_name m = n)
              (concat (map (\<lambda>s. listed s twoStores) (getAvailableSources twoBackends twoStores)))"
    "\<forall>n. (\<exists>s\<in>set (getAvailableSources twoBackends twoStores). n \<in> md_name ` set (listed s twoStores))
          \<longrightarrow> length (filter (\<lambda>m. md_name m = n) l) = 1"
    by blast
  have "length (filter (\<lambda>m. md_name m = ''K'') l) = 1"
    using l(3) by (simp add: available_twoBackends listed_def twoStores_def)
  moreover have "find (\<lambda>m. md_name m = ''K'') l
          = Some \<lparr>md_name = ''K'', createdAt = None, updatedAt = None,
                  description = Some ''fast'', tags = None, scope = None\<rparr>"
    using l(2) by (simp add: available_twoBackends listed_def twoStores_def)
  ultimately show ?thesis using got l(1) by simp
qed

theorem delete_everywhere_witness:
  "Registry_delete twoBackends ''K'' None twoStores = Inr (True, (\<lambda>sid. []))"
proof -
  have first: "memoryDelete ''fast'' ''K'' twoStores = Inr (True, twoStores(''fast'' := []))"
    by (simp add: memoryDelete_def twoStores_def)
  have second: "memoryDelete ''slow'' ''K'' (twoStores(''fast'' := [])) = Inr (True, (\<lambda>sid. []))"
    by (auto simp: memoryDelete_def twoStores_def)
  have r0: "delete_run [] ''K'' (\<lambda>sid. []) [] (\<lambda>sid. [])"
    by (rule delete_run.Nil)
  have r1: "delete_run [memoryDelete ''slow''] ''K'' (twoStores(''fast'' := [])) [True] (\<lambda>sid. [])"
    using second r0 by (rule delete_run.Cons)
  have r2: "delete_run [memoryDelete ''fast'', memoryDelete ''slow''] ''K'' twoStores [True, True]
      (\<lambda>sid. [])"
    using first r1 by (rule delete_run.Cons)
  have run: "delete_run
      (List.map_filter src_delete (getAvailableSources twoBackends twoStores)) ''K'' twoStores
      [True, True] (\<lambda>sid. [])"
    unfolding available_twoBackends using r2 by (simp add: List.map_filter_simps)
  have "\<exists>results. delete_run
      (List.map_filter src_delete (getAvailableSources twoBackends twoStores)) ''K'' twoStores
      results (\<lambda>sid. []) \<and> True = (True \<in> set results)"
    using run by (intro exI [of _ "[True, True]"]) simp
  then show ?thesis
    by (simp only: delete_everywhere)
qed

subsection \<open>The credential service\<close>

lemma loadConfig_bothVaults:
  "loadConfig refPlatform (files bothVaults) = \<lparr>defaultLocation = Global, customPath = None\<rparr>"
  by (simp add: loadConfig_def readConfigFile_def ref_paths pathExists_def
      bothVaults_def refFiles_def refSource_def globalSource_def deepMerge_def getDefaultConfig_def)

lemma init_bothVaults:
  "init refPlatform None newService bothVaults
     = \<lparr>registry = [(''local'', localBackend refPlatform globalSource)],
        localSource = Some globalSource, initialized = True\<rparr>"
  by (simp add: init_def newService_def loadConfig_bothVaults ref_paths
      path_join_def globalSource_def register_def Let_def)

lemma files_bothVaults:
  "files bothVaults (vaultPath globalSource) = Some (ref_stringify [])"
  "files bothVaults (vaultPath refSource) = Some (ref_stringify [])"
  "loadRecipient (files bothVaults) (recipientPath globalSource) = Inr ''age1ref''"
  "pathExists (files bothVaults) (identityPath globalSource)"
  "pathExists (files bothVaults) (identityPath refSource)"
  by (simp_all add: bothVaults_def refFiles_def refSource_def globalSource_def loadRecipient_def
      readFile_def keyLine_def trim_def isWhiteSpace_def startsWith_def pathExists_def)

lemma localBackend_set [simp]:
  "src_set (localBackend P src) = Some (\<lambda>name value w.
                  case LocalSource_set P src name value None (clock w) (files w) of
                    Inl e \<Rightarrow> Inl e
                  | Inr f' \<Rightarrow> Inr (w\<lparr>files := f'\<rparr>))"
  by (simp add: localBackend_def)

text \<open>
  C8, at an input where the code departs from it. Both vaults exist and no config file
  does. \<^verbatim>\<open>getVaultPath()\<close> answers the local vault directory, but \<^verbatim>\<open>init()\<close> builds
  the store from the configured default location and never looks at which vaults exist:
  the store is the shared vault, and \<^verbatim>\<open>add\<close> writes the credential to the shared
  vault file and leaves the local one as it was.
\<close>

theorem local_vault_not_resolved:
  "hasVault refPlatform bothVaults = (True, True) \<and>
   getVaultPath refPlatform bothVaults = ''/work/.secretsage'' \<and>
   localSource (init refPlatform None newService bothVaults) = Some globalSource \<and>
   Service_add refPlatform newService ''API_KEY'' ''secret'' bothVaults
     = Inr (\<lparr>registry = [(''local'', localBackend refPlatform globalSource)],
             localSource = Some globalSource, initialized = True\<rparr>,
            bothVaults\<lparr>files := (files bothVaults)
              (''/home/user/.secretsage/vault.json'' \<mapsto>
                 ref_stringify [written ''API_KEY'' ''age1ref:secret'' (Some 1000) 1000])\<rparr>)"
proof -
  have hv: "hasVault refPlatform bothVaults = (True, True)"
    using files_bothVaults(4,5)
    by (simp add: hasVault_def hasLocalVault_def hasGlobalVault_def ref_paths path_join_def
        globalSource_def refSource_def)
  have gp: "getVaultPath refPlatform bothVaults = ''/work/.secretsage''"
    using files_bothVaults(5)
    by (simp add: getVaultPath_def hasLocalVault_def ref_paths path_join_def refSource_def)
  have rv: "readVault refPlatform globalSource (files bothVaults) = []"
    by (rule readVault_stringify [OF codec_ok_ref]) (simp add: files_bothVaults)
  have enc: "age_encrypt refPlatform ''secret'' ''age1ref'' = Some ''age1ref:secret''"
    by (simp add: ref_encrypt_def startsWith_def)
  have se: "setEntries ''API_KEY'' ''age1ref:secret'' None 1000 [] = [written ''API_KEY'' ''age1ref:secret'' (Some 1000) 1000]"
    by (simp add: setEntries_def newMetadata_def written_def)
  have ls: "LocalSource_set refPlatform globalSource ''API_KEY'' ''secret'' None 1000 (files bothVaults)
      = Inr ((files bothVaults)(''/home/user/.secretsage/vault.json'' \<mapsto>
                 ref_stringify [written ''API_KEY'' ''age1ref:secret'' (Some 1000) 1000]))"
    unfolding set_writes [OF files_bothVaults(3) enc] rv se
    by (simp add: writeVault_def writeFile_def globalSource_def)
  have av: "getAvailableSources [(''local'', localBackend refPlatform globalSource)] bothVaults
      = [localBackend refPlatform globalSource]"
    using files_bothVaults(4) by (simp add: getAvailableSources_def LocalSource_isAvailable_def)
  have ck: "clock bothVaults = 1000" by (simp add: bothVaults_def)
  have add: "Service_add refPlatform newService ''API_KEY'' ''secret'' bothVaults
     = Inr (\<lparr>registry = [(''local'', localBackend refPlatform globalSource)],
             localSource = Some globalSource, initialized = True\<rparr>,
            bothVaults\<lparr>files := (files bothVaults)
              (''/home/user/.secretsage/vault.json'' \<mapsto>
                 ref_stringify [written ''API_KEY'' ''age1ref:secret'' (Some 1000) 1000])\<rparr>)"
  proof -
    have "\<not> initialized newService" by (simp add: newService_def)
    then show ?thesis
      by (simp add: Service_add_def ensureInitialized_def init_bothVaults
          Registry_set_def given_def av ck ls)
  qed
  show ?thesis using hv gp add by (simp add: init_bothVaults)
qed

end
